theory Spec2Isabelle
  imports Complex_Main
begin

section \<open>Tensors\<close>

text \<open>
  The notebook \<^verbatim>\<open>Transformer_Propagator/transformer.ipynb\<close> computes with dense
  tensors. A tensor is modelled the way the library stores a contiguous one: its shape and
  its elements in row-major order. Every tensor that the notebook reshapes with
  \<^verbatim>\<open>view\<close> is freshly made (by \<^verbatim>\<open>torch.stack\<close>, by a linear layer, or read
  from the store file), hence contiguous. Scalars are an arbitrary type where only the
  arrangement of the data matters and the real numbers where arithmetic is done; rounding
  of 32-bit floats is not modelled.
\<close>

datatype error =
    StackSizeMismatch      \<comment> \<open>RuntimeError: stack expects each tensor to be equal size\<close>
  | UnpackMismatch         \<comment> \<open>ValueError: not enough / too many values to unpack\<close>
  | ViewSizeMismatch       \<comment> \<open>RuntimeError: shape is invalid for input of size n\<close>
  | BroadcastMismatch      \<comment> \<open>RuntimeError: the size of tensor a must match the size of tensor b\<close>
  | MatmulMismatch         \<comment> \<open>RuntimeError: mat1 and mat2 shapes cannot be multiplied\<close>
  | EncoderShapeError      \<comment> \<open>AssertionError / RuntimeError of the attention stack on a wrong rank or width\<close>
  | IndexOutOfRange        \<comment> \<open>IndexError\<close>
  | IterZeroDim            \<comment> \<open>TypeError: iteration over a 0-d tensor\<close>
  | KeyMissing             \<comment> \<open>KeyError: the store file has no such array\<close>
  | ZeroDivision           \<comment> \<open>ZeroDivisionError\<close>
  | NoGradFn               \<comment> \<open>RuntimeError: element 0 of tensors does not require grad\<close>

record 'a tensor =
  shape :: "nat list"
  data :: "'a list"

definition bind_err :: "error + 'a \<Rightarrow> ('a \<Rightarrow> error + 'b) \<Rightarrow> error + 'b" where
  "bind_err m f = (case m of Inl e \<Rightarrow> Inl e | Inr x \<Rightarrow> f x)"

text \<open>Row-major offset of a multi-index, \<^verbatim>\<open>t[i0, i1, ...]\<close> for indices in range.\<close>

fun ravel :: "nat list \<Rightarrow> nat list \<Rightarrow> nat" where
  "ravel (d # ds) (i # is) = i * prod_list ds + ravel ds is"
| "ravel _ _ = 0"

definition get :: "'a tensor \<Rightarrow> nat list \<Rightarrow> 'a" where
  "get t idx = data t ! ravel (shape t) idx"

text \<open>\<^verbatim>\<open>t.view(*s)\<close>: same data, new shape; fails when the element counts differ.\<close>

definition view :: "'a tensor \<Rightarrow> nat list \<Rightarrow> error + 'a tensor" where
  "view t s =
     (if prod_list s = prod_list (shape t) then Inr (t\<lparr>shape := s\<rparr>)
      else Inl ViewSizeMismatch)"

text \<open>
  \<^verbatim>\<open>t[i]\<close> for a Python integer: a negative index counts from the end; the result
  drops the first axis.
\<close>

definition select0 :: "'a tensor \<Rightarrow> int \<Rightarrow> error + 'a tensor" where
  "select0 t i =
     (case shape t of
        [] \<Rightarrow> Inl IndexOutOfRange
      | d # ds \<Rightarrow>
          (let j = (if i < 0 then int d + i else i) in
           if 0 \<le> j \<and> j < int d
           then Inr \<lparr>shape = ds,
                     data = take (prod_list ds) (drop (nat j * prod_list ds) (data t))\<rparr>
           else Inl IndexOutOfRange))"

section \<open>Sample Loader: \<^verbatim>\<open>QuantumWaveDataset\<close>\<close>

text \<open>
  The store file is a dictionary of named arrays (\<^verbatim>\<open>f["dataset_X"][:]\<close>).
\<close>

type_synonym 'a h5_file = "string \<rightharpoonup> 'a tensor"

record 'a QuantumWaveDataset =
  ds_X :: "'a tensor"
  ds_y :: "'a tensor"
  ds_num_trajectories :: nat
  ds_sequence_length :: nat
  ds_n_grid :: nat

definition read_array :: "'a h5_file \<Rightarrow> string \<Rightarrow> error + 'a tensor" where
  "read_array f k = (case f k of None \<Rightarrow> Inl KeyMissing | Some t \<Rightarrow> Inr t)"

definition QuantumWaveDataset_init :: "'a h5_file \<Rightarrow> error + 'a QuantumWaveDataset" where
  "QuantumWaveDataset_init f =
     bind_err (read_array f ''dataset_X'') (\<lambda>X0.
     bind_err (read_array f ''dataset_y'') (\<lambda>y0.
       (case shape X0 of
          [num, seq, n_grid_3] \<Rightarrow>
            (let g = n_grid_3 div 3 in
             bind_err (view X0 [num, seq, g, 3]) (\<lambda>X1.
             bind_err (view y0 [num, seq, g, 2]) (\<lambda>y1.
               Inr \<lparr>ds_X = X1, ds_y = y1, ds_num_trajectories = num,
                    ds_sequence_length = seq, ds_n_grid = g\<rparr>)))
        | _ \<Rightarrow> Inl UnpackMismatch)))"

definition dataset_len :: "'a QuantumWaveDataset \<Rightarrow> nat" where
  "dataset_len ds = ds_num_trajectories ds"

definition dataset_getitem ::
  "'a QuantumWaveDataset \<Rightarrow> int \<Rightarrow> error + ('a tensor \<times> 'a tensor)" where
  "dataset_getitem ds idx =
     bind_err (select0 (ds_X ds) idx) (\<lambda>a.
     bind_err (select0 (ds_y ds) idx) (\<lambda>b. Inr (a, b)))"

section \<open>Tensor operations used by the model\<close>

text \<open>The first \<open>k\<close> consecutive rows of width \<open>n\<close> of a flat list.\<close>

primrec rows :: "nat \<Rightarrow> nat \<Rightarrow> 'a list \<Rightarrow> 'a list list" where
  "rows 0 n xs = []"
| "rows (Suc k) n xs = take n xs # rows k n (drop n xs)"

text \<open>
  \<^verbatim>\<open>torch.stack((a, b, c), dim=-1)\<close>: the three tensors must have the size of the
  first one; the new last axis holds the three values of each position.
\<close>

fun interleave3 :: "'a list \<Rightarrow> 'a list \<Rightarrow> 'a list \<Rightarrow> 'a list" where
  "interleave3 (a # as) (b # bs) (c # cs) = a # b # c # interleave3 as bs cs"
| "interleave3 _ _ _ = []"

definition stack3_last :: "'a tensor \<Rightarrow> 'a tensor \<Rightarrow> 'a tensor \<Rightarrow> error + 'a tensor" where
  "stack3_last a b c =
     (if shape b = shape a \<and> shape c = shape a
      then Inr \<lparr>shape = shape a @ [3], data = interleave3 (data a) (data b) (data c)\<rparr>
      else Inl StackSizeMismatch)"

text \<open>\<^verbatim>\<open>t[..., c]\<close>: channel \<open>c\<close> of the last axis.\<close>

definition select_last :: "'a tensor \<Rightarrow> nat \<Rightarrow> error + 'a tensor" where
  "select_last t c =
     (if shape t \<noteq> [] \<and> c < last (shape t)
      then Inr \<lparr>shape = butlast (shape t),
                data = map (\<lambda>k. data t ! (k * last (shape t) + c))
                         [0..<prod_list (butlast (shape t))]\<rparr>
      else Inl IndexOutOfRange)"

text \<open>\<^verbatim>\<open>t.unsqueeze(0)\<close>\<close>

definition unsqueeze0 :: "'a tensor \<Rightarrow> 'a tensor" where
  "unsqueeze0 t = t\<lparr>shape := 1 # shape t\<rparr>"

text \<open>\<^verbatim>\<open>t.shape[i]\<close>\<close>

definition size_at :: "'a tensor \<Rightarrow> nat \<Rightarrow> error + nat" where
  "size_at t i = (if i < length (shape t) then Inr (shape t ! i) else Inl IndexOutOfRange)"

text \<open>
  \<^verbatim>\<open>t[:, :n, :]\<close>: the first \<open>n\<close> entries of axis 1 (all of them when there are
  fewer), for a tensor of rank 3 or more.
\<close>

definition slice1 :: "'a tensor \<Rightarrow> nat \<Rightarrow> error + 'a tensor" where
  "slice1 t n =
     (case shape t of
        a # l # d # ds \<Rightarrow>
          Inr \<lparr>shape = a # min n l # d # ds,
               data = concat (map (take (min n l * prod_list (d # ds)))
                                  (rows a (l * prod_list (d # ds)) (data t)))\<rparr>
      | _ \<Rightarrow> Inl IndexOutOfRange)"

text \<open>
  Broadcasting. Shapes are aligned at their last axes; two sizes are compatible when they
  are equal or one of them is 1. \<open>bshape_rev\<close> works on the reversed shapes.
\<close>

fun bshape_rev :: "nat list \<Rightarrow> nat list \<Rightarrow> nat list option" where
  "bshape_rev [] ys = Some ys"
| "bshape_rev xs [] = Some xs"
| "bshape_rev (x # xs) (y # ys) =
     (if x = y \<or> y = 1 then map_option ((#) x) (bshape_rev xs ys)
      else if x = 1 then map_option ((#) y) (bshape_rev xs ys)
      else None)"

definition broadcast_shapes :: "nat list \<Rightarrow> nat list \<Rightarrow> nat list option" where
  "broadcast_shapes s1 s2 = map_option rev (bshape_rev (rev s1) (rev s2))"

fun unravel :: "nat list \<Rightarrow> nat \<Rightarrow> nat list" where
  "unravel [] k = []"
| "unravel (d # ds) k = (k div prod_list ds) # unravel ds (k mod prod_list ds)"

text \<open>
  \<open>expand_to t s\<close> is \<open>t\<close> broadcast to the shape \<open>s\<close>: leading axes that \<open>t\<close> lacks and
  axes where \<open>t\<close> has size 1 are repeated.
\<close>

definition expand_to :: "'a tensor \<Rightarrow> nat list \<Rightarrow> 'a tensor" where
  "expand_to t s =
     \<lparr>shape = s,
      data = map (\<lambda>k. get t (map2 (\<lambda>d i. if d = 1 then 0 else i) (shape t)
                                  (drop (length s - length (shape t)) (unravel s k))))
                 [0..<prod_list s]\<rparr>"

definition add_tensors :: "real tensor \<Rightarrow> real tensor \<Rightarrow> error + real tensor" where
  "add_tensors a b =
     (case broadcast_shapes (shape a) (shape b) of
        None \<Rightarrow> Inl BroadcastMismatch
      | Some s \<Rightarrow>
          Inr \<lparr>shape = s,
               data = map2 (+) (data (expand_to a s)) (data (expand_to b s))\<rparr>)"

section \<open>Layers\<close>

text \<open>
  \<^verbatim>\<open>nn.Linear(in_features, out_features)\<close>: an affine map applied to the last axis.
  \<open>weight\<close> has \<open>out_features\<close> rows of \<open>in_features\<close> entries.
\<close>

record linear =
  in_features :: nat
  out_features :: nat
  weight :: "real list list"
  bias :: "real list"

definition dot :: "real list \<Rightarrow> real list \<Rightarrow> real" where
  "dot u v = sum_list (map2 (*) u v)"

definition affine :: "linear \<Rightarrow> real list \<Rightarrow> real list" where
  "affine l v = map (\<lambda>j. dot (weight l ! j) v + bias l ! j) [0..<out_features l]"

definition linear_apply :: "linear \<Rightarrow> real tensor \<Rightarrow> error + real tensor" where
  "linear_apply l t =
     (if shape t \<noteq> [] \<and> last (shape t) = in_features l
      then Inr \<lparr>shape = butlast (shape t) @ [out_features l],
                data = concat (map (affine l)
                         (rows (prod_list (butlast (shape t))) (in_features l) (data t)))\<rparr>
      else Inl MatmulMismatch)"

text \<open>
  \<^verbatim>\<open>nn.TransformerEncoder\<close>. The attention stack is the library's; the notebook only
  chooses its hyper-parameters. It is modelled as what it is to the notebook: a map
  \<open>enc_layers\<close> from a sequence of \<open>enc_d_model\<close>-vectors to a sequence of vectors (one
  fixed function per mode, \<open>True\<close> for training mode, in which dropout is active), applied
  separately to every sequence of the input. For an input of shape \<open>(d0, d1, d_model)\<close>
  the library takes axis 0 as the batch axis when \<open>batch_first\<close> is set, and otherwise,
  which is the default, axis 0 as the sequence axis and axis 1 as the batch axis. An
  input of rank 2 is one unbatched sequence. No mask is passed.
\<close>

record encoder =
  enc_d_model :: nat
  enc_batch_first :: bool
  enc_layers :: "bool \<Rightarrow> real list list \<Rightarrow> real list list"

definition encoder_apply :: "encoder \<Rightarrow> bool \<Rightarrow> real tensor \<Rightarrow> error + real tensor" where
  "encoder_apply e mode t =
     (case shape t of
        [d0, d1, d] \<Rightarrow>
          if d \<noteq> enc_d_model e then Inl EncoderShapeError
          else
            (let tokens = rows (d0 * d1) d (data t) in
             if enc_batch_first e
             then Inr (t\<lparr>data := concat (map (\<lambda>i. concat (enc_layers e mode
                                  (map (\<lambda>j. tokens ! (i * d1 + j)) [0..<d1]))) [0..<d0])\<rparr>)
             else Inr (t\<lparr>data := concat (map (\<lambda>k. enc_layers e mode
                                  (map (\<lambda>i. tokens ! (i * d1 + k mod d1)) [0..<d0]) ! (k div d1))
                                [0..<d0 * d1])\<rparr>))
      | [s, d] \<Rightarrow>
          if d \<noteq> enc_d_model e then Inl EncoderShapeError
          else Inr (t\<lparr>data := concat (enc_layers e mode (rows s d (data t)))\<rparr>)
      | _ \<Rightarrow> Inl EncoderShapeError)"

text \<open>
  The layers of which the library builds the attention stack, for the case that dropout
  is inactive (evaluation mode, or dropout probability 0): \<^verbatim>\<open>nn.MultiheadAttention\<close>
  as self-attention without a mask (scaled dot products, a softmax over the positions of
  the sequence, the heads concatenated and projected), \<^verbatim>\<open>nn.LayerNorm\<close> (biased
  variance, \<open>eps\<close> under the root), \<^verbatim>\<open>nn.TransformerEncoderLayer\<close> with its
  defaults (normalisation after each residual sum, ReLU) and
  \<^verbatim>\<open>nn.TransformerEncoder\<close> as the layers in a row. They give concrete values for
  \<open>enc_layers\<close>; the general results below hold for every \<open>enc_layers\<close>.
\<close>

definition softmax :: "real list \<Rightarrow> real list" where
  "softmax xs = map (\<lambda>x. exp x / sum_list (map exp xs)) xs"

definition layer_norm :: "real list \<Rightarrow> real list \<Rightarrow> real \<Rightarrow> real list \<Rightarrow> real list" where
  "layer_norm gamma beta eps v =
     (let mu = sum_list v / real (length v);
          var = sum_list (map (\<lambda>x. (x - mu)\<^sup>2) v) / real (length v)
      in map2 (+) (map2 (*) (map (\<lambda>x. (x - mu) / sqrt (var + eps)) v) gamma) beta)"

record multihead_attention =
  num_heads :: nat
  q_proj :: linear
  k_proj :: linear
  v_proj :: linear
  out_proj :: linear

definition attention_head ::
  "real list list \<Rightarrow> real list list \<Rightarrow> real list list \<Rightarrow> real list list" where
  "attention_head qs ks vs =
     map (\<lambda>q. let w = softmax (map (\<lambda>k. dot q k / sqrt (real (length q))) ks)
               in map (\<lambda>c. sum_list (map2 (\<lambda>a v. a * v ! c) w vs)) [0..<length q]) qs"

definition self_attention :: "multihead_attention \<Rightarrow> real list list \<Rightarrow> real list list" where
  "self_attention a s =
     (let head_dim = out_features (q_proj a) div num_heads a;
          part = (\<lambda>h v. take head_dim (drop (h * head_dim) v));
          heads = map (\<lambda>h. attention_head (map (\<lambda>x. part h (affine (q_proj a) x)) s)
                                            (map (\<lambda>x. part h (affine (k_proj a) x)) s)
                                            (map (\<lambda>x. part h (affine (v_proj a) x)) s))
                      [0..<num_heads a]
      in map (\<lambda>i. affine (out_proj a) (concat (map (\<lambda>hd. hd ! i) heads))) [0..<length s])"

record encoder_layer =
  self_attn :: multihead_attention
  linear1 :: linear
  linear2 :: linear
  norm1_weight :: "real list"
  norm1_bias :: "real list"
  norm2_weight :: "real list"
  norm2_bias :: "real list"
  layer_norm_eps :: real

definition encoder_layer_forward :: "encoder_layer \<Rightarrow> real list list \<Rightarrow> real list list" where
  "encoder_layer_forward l s =
     (let x1 = map2 (\<lambda>x a. layer_norm (norm1_weight l) (norm1_bias l) (layer_norm_eps l)
                              (map2 (+) x a)) s (self_attention (self_attn l) s)
      in map (\<lambda>x. layer_norm (norm2_weight l) (norm2_bias l) (layer_norm_eps l)
                     (map2 (+) x (affine (linear2 l) (map (max 0) (affine (linear1 l) x))))) x1)"

definition transformer_encoder_forward ::
  "encoder_layer list \<Rightarrow> bool \<Rightarrow> real list list \<Rightarrow> real list list" where
  "transformer_encoder_forward layers mode s = fold encoder_layer_forward layers s"

section \<open>Sequence Model: the first \<^verbatim>\<open>QuantumTransformer\<close>\<close>

text \<open>
  \<^verbatim>\<open>create_positional_encoding\<close>. \<^verbatim>\<open>div_term\<close> has one entry for every even
  index below \<open>d_model\<close>. The columns \<open>0::2\<close> receive the sines and the columns \<open>1::2\<close>
  the cosines; when \<open>d_model\<close> is odd there is one cosine column too many for the slots,
  and the assignment fails unless the cosine block has a single column, which is then
  broadcast to zero slots. \<^verbatim>\<open>-math.log(10000.0) / d_model\<close> divides by zero for
  \<open>d_model = 0\<close>.
\<close>

definition div_term :: "nat \<Rightarrow> nat \<Rightarrow> real" where
  "div_term d_model i = exp (real (2 * i) * (- ln 10000 / real d_model))"

definition pe_entry :: "nat \<Rightarrow> nat \<Rightarrow> nat \<Rightarrow> real" where
  "pe_entry d_model p j =
     (if even j then sin (real p * div_term d_model (j div 2))
      else cos (real p * div_term d_model (j div 2)))"

definition pe_table :: "nat \<Rightarrow> nat \<Rightarrow> real tensor" where
  "pe_table full_seq_length d_model =
     \<lparr>shape = [1, full_seq_length, d_model],
      data = map (\<lambda>k. pe_entry d_model (k div d_model) (k mod d_model))
                 [0..<full_seq_length * d_model]\<rparr>"

definition create_positional_encoding :: "nat \<Rightarrow> nat \<Rightarrow> error + real tensor" where
  "create_positional_encoding full_seq_length d_model =
     (if d_model = 0 then Inl ZeroDivision
      else if d_model div 2 \<noteq> (d_model + 1) div 2 \<and> (d_model + 1) div 2 \<noteq> 1
      then Inl BroadcastMismatch
      else Inr (pe_table full_seq_length d_model))"

record QuantumTransformer =
  embedding :: linear
  positional_encoding :: "real tensor"
  transformer_encoder :: encoder
  output_layer :: linear
  training :: bool

text \<open>
  The learned weights, as \<^verbatim>\<open>model.parameters()\<close> yields them. The positional table is
  a plain attribute and not among them.
\<close>

record parameters =
  embedding_weight :: "real list list"
  embedding_bias :: "real list"
  encoder_weights :: "bool \<Rightarrow> real list list \<Rightarrow> real list list"
  output_weight :: "real list list"
  output_bias :: "real list"

definition model_parameters :: "QuantumTransformer \<Rightarrow> parameters" where
  "model_parameters m =
     \<lparr>embedding_weight = weight (embedding m), embedding_bias = bias (embedding m),
      encoder_weights = enc_layers (transformer_encoder m),
      output_weight = weight (output_layer m), output_bias = bias (output_layer m)\<rparr>"

definition set_parameters :: "QuantumTransformer \<Rightarrow> parameters \<Rightarrow> QuantumTransformer" where
  "set_parameters m w =
     m\<lparr>embedding := (embedding m)\<lparr>weight := embedding_weight w, bias := embedding_bias w\<rparr>,
       transformer_encoder := (transformer_encoder m)\<lparr>enc_layers := encoder_weights w\<rparr>,
       output_layer := (output_layer m)\<lparr>weight := output_weight w, bias := output_bias w\<rparr>\<rparr>"

text \<open>
  \<^verbatim>\<open>__init__\<close>. The randomly initialised weights \<open>w\<close> are an argument. The encoder
  layer is created without \<^verbatim>\<open>batch_first\<close>, so the library's default applies. A new
  module is in training mode.
\<close>

definition QuantumTransformer_init ::
  "parameters \<Rightarrow> nat \<Rightarrow> nat \<Rightarrow> nat \<Rightarrow> error + QuantumTransformer" where
  "QuantumTransformer_init w d_model seq_length n_grid =
     bind_err (create_positional_encoding (seq_length * n_grid) d_model) (\<lambda>pe.
       Inr \<lparr>embedding = \<lparr>in_features = 3, out_features = d_model,
                          weight = embedding_weight w, bias = embedding_bias w\<rparr>,
            positional_encoding = pe,
            transformer_encoder = \<lparr>enc_d_model = d_model, enc_batch_first = False,
                                    enc_layers = encoder_weights w\<rparr>,
            output_layer = \<lparr>in_features = d_model, out_features = 2,
                             weight = output_weight w, bias = output_bias w\<rparr>,
            training = True\<rparr>)"

definition forward ::
  "QuantumTransformer \<Rightarrow> real tensor \<Rightarrow> real tensor \<Rightarrow> real tensor \<Rightarrow> error + real tensor" where
  "forward m psi_real psi_imag potential =
     bind_err (stack3_last psi_real psi_imag potential) (\<lambda>x0.
       (case shape x0 of
          [batch_size, seq_length, n_grid, _] \<Rightarrow>
            bind_err (view x0 [batch_size, seq_length * n_grid, 3]) (\<lambda>x1.
            bind_err (linear_apply (embedding m) x1) (\<lambda>x2.
            bind_err (size_at x2 1) (\<lambda>n.
            bind_err (slice1 (positional_encoding m) n) (\<lambda>pe.
            bind_err (add_tensors x2 pe) (\<lambda>x3.
            bind_err (encoder_apply (transformer_encoder m) (training m) x3) (\<lambda>x4.
            bind_err (linear_apply (output_layer m) x4) (\<lambda>x5.
              view x5 [batch_size, seq_length, n_grid, 2])))))))
        | _ \<Rightarrow> Inl UnpackMismatch))"

section \<open>Sequence Model: the second \<^verbatim>\<open>QuantumTransformer\<close>\<close>

text \<open>
  The last cell of the notebook defines the class again, with a separate
  \<^verbatim>\<open>PositionalEncoding\<close> module (a table of \<^verbatim>\<open>max_len=1000\<close> rows), an
  encoder layer created with \<^verbatim>\<open>batch_first=True\<close>, and a pair of fields as result.
  Here the division \<^verbatim>\<open>-torch.log(torch.tensor(10000.0)) / d_model\<close> is a tensor
  division and does not raise for \<open>d_model = 0\<close>.
\<close>

definition PositionalEncoding_init :: "nat \<Rightarrow> nat \<Rightarrow> error + real tensor" where
  "PositionalEncoding_init d_model max_len =
     (if d_model div 2 \<noteq> (d_model + 1) div 2 \<and> (d_model + 1) div 2 \<noteq> 1
      then Inl BroadcastMismatch
      else Inr (pe_table max_len d_model))"

definition PositionalEncoding_forward :: "real tensor \<Rightarrow> real tensor \<Rightarrow> error + real tensor" where
  "PositionalEncoding_forward pe x =
     bind_err (size_at x 1) (\<lambda>n.
     bind_err (slice1 pe n) (\<lambda>p. add_tensors x p))"

record QuantumTransformer2 =
  self_n_grid :: nat
  self_d_model :: nat
  input_proj :: linear
  output_proj :: linear
  self_pe :: "real tensor"
  transformer_encoder2 :: encoder
  training2 :: bool

definition QuantumTransformer2_init ::
  "parameters \<Rightarrow> nat \<Rightarrow> nat \<Rightarrow> error + QuantumTransformer2" where
  "QuantumTransformer2_init w n_grid d_model =
     bind_err (PositionalEncoding_init d_model 1000) (\<lambda>pe.
       Inr \<lparr>self_n_grid = n_grid, self_d_model = d_model,
            input_proj = \<lparr>in_features = 3, out_features = d_model,
                           weight = embedding_weight w, bias = embedding_bias w\<rparr>,
            output_proj = \<lparr>in_features = d_model, out_features = 2,
                            weight = output_weight w, bias = output_bias w\<rparr>,
            self_pe = pe,
            transformer_encoder2 = \<lparr>enc_d_model = d_model, enc_batch_first = True,
                                     enc_layers = encoder_weights w\<rparr>,
            training2 = True\<rparr>)"

definition forward2 ::
  "QuantumTransformer2 \<Rightarrow> real tensor \<Rightarrow> real tensor \<Rightarrow> real tensor
     \<Rightarrow> error + (real tensor \<times> real tensor)" where
  "forward2 m psi_real psi_imag potential =
     (case shape psi_real of
        [batch_size, seq_length, n_grid] \<Rightarrow>
          bind_err (stack3_last psi_real psi_imag potential) (\<lambda>x0.
          bind_err (view x0 [batch_size, seq_length * n_grid, 3]) (\<lambda>x1.
          bind_err (linear_apply (input_proj m) x1) (\<lambda>x2.
          bind_err (PositionalEncoding_forward (self_pe m) x2) (\<lambda>x3.
          bind_err (encoder_apply (transformer_encoder2 m) (training2 m) x3) (\<lambda>x4.
          bind_err (linear_apply (output_proj m) x4) (\<lambda>x5.
          bind_err (view x5 [batch_size, seq_length, n_grid, 2]) (\<lambda>x6.
          bind_err (select_last x6 0) (\<lambda>psi_real_pred.
          bind_err (select_last x6 1) (\<lambda>psi_imag_pred.
            Inr (psi_real_pred, psi_imag_pred))))))))))
      | _ \<Rightarrow> Inl UnpackMismatch)"

section \<open>Autoregressive Propagator: \<^verbatim>\<open>propagate_wavefunction\<close>\<close>

text \<open>
  What a call of the model returns: the first class returns one tensor, the second a
  tuple of two. \<^verbatim>\<open>psi_real, psi_imag = model(...)\<close> unpacks either: a tuple must have
  two components, a tensor is iterated along its first axis, which must have size 2.
\<close>

datatype pyval = PTensor "real tensor" | PTuple "real tensor list"

definition unpack2 :: "pyval \<Rightarrow> error + (real tensor \<times> real tensor)" where
  "unpack2 v =
     (case v of
        PTuple ts \<Rightarrow> (case ts of [a, b] \<Rightarrow> Inr (a, b) | _ \<Rightarrow> Inl UnpackMismatch)
      | PTensor t \<Rightarrow>
          (case shape t of
             [] \<Rightarrow> Inl IterZeroDim
           | d # ds \<Rightarrow>
               if d = 2
               then bind_err (select0 t 0) (\<lambda>a. bind_err (select0 t 1) (\<lambda>b. Inr (a, b)))
               else Inl UnpackMismatch))"

text \<open>
  The model is an argument of the propagator. \<open>call\<close> is \<^verbatim>\<open>model(a, b, c)\<close>; it
  returns the result together with the module, so that a module that changed itself in a
  call would be visible. The loop runs over \<^verbatim>\<open>range(N)\<close>; \<open>acc\<close> is
  \<^verbatim>\<open>propagated_wavefunction\<close>. Moving tensors between devices does not change them.
\<close>

fun propagate_steps ::
  "('m \<Rightarrow> real tensor \<Rightarrow> real tensor \<Rightarrow> real tensor \<Rightarrow> (error + pyval) \<times> 'm)
     \<Rightarrow> real tensor \<Rightarrow> nat list \<Rightarrow> 'm \<Rightarrow> real tensor \<Rightarrow> real tensor
     \<Rightarrow> (real tensor \<times> real tensor) list
     \<Rightarrow> (error + (real tensor \<times> real tensor) list) \<times> 'm" where
  "propagate_steps call potential [] model psi_real psi_imag acc = (Inr acc, model)"
| "propagate_steps call potential (t # ts) model psi_real psi_imag acc =
     (case select0 potential (int t) of
        Inl e \<Rightarrow> (Inl e, model)
      | Inr v \<Rightarrow>
          (case call model psi_real psi_imag (unsqueeze0 v) of
             (Inl e, model') \<Rightarrow> (Inl e, model')
           | (Inr out, model') \<Rightarrow>
               (case unpack2 out of
                  Inl e \<Rightarrow> (Inl e, model')
                | Inr (re, im) \<Rightarrow>
                    propagate_steps call potential ts model' re im (acc @ [(re, im)]))))"

definition propagate_wavefunction ::
  "('m \<Rightarrow> 'm) \<Rightarrow> ('m \<Rightarrow> real tensor \<Rightarrow> real tensor \<Rightarrow> real tensor \<Rightarrow> (error + pyval) \<times> 'm)
     \<Rightarrow> 'm \<Rightarrow> real tensor \<Rightarrow> real tensor \<Rightarrow> real tensor \<Rightarrow> nat
     \<Rightarrow> (error + (real tensor \<times> real tensor) list) \<times> 'm" where
  "propagate_wavefunction set_eval call model initial_psi_real initial_psi_imag potential N =
     propagate_steps call potential [0..<N] (set_eval model)
       initial_psi_real initial_psi_imag []"

text \<open>\<^verbatim>\<open>model.eval()\<close> and \<^verbatim>\<open>model(...)\<close> for the two classes.\<close>

definition model_eval :: "QuantumTransformer \<Rightarrow> QuantumTransformer" where
  "model_eval m = m\<lparr>training := False\<rparr>"

definition model_call ::
  "QuantumTransformer \<Rightarrow> real tensor \<Rightarrow> real tensor \<Rightarrow> real tensor
     \<Rightarrow> (error + pyval) \<times> QuantumTransformer" where
  "model_call m a b c =
     (case forward m a b c of Inl e \<Rightarrow> (Inl e, m) | Inr out \<Rightarrow> (Inr (PTensor out), m))"

definition model_eval2 :: "QuantumTransformer2 \<Rightarrow> QuantumTransformer2" where
  "model_eval2 m = m\<lparr>training2 := False\<rparr>"

definition model_call2 ::
  "QuantumTransformer2 \<Rightarrow> real tensor \<Rightarrow> real tensor \<Rightarrow> real tensor
     \<Rightarrow> (error + pyval) \<times> QuantumTransformer2" where
  "model_call2 m a b c =
     (case forward2 m a b c of
        Inl e \<Rightarrow> (Inl e, m)
      | Inr (re, im) \<Rightarrow> (Inr (PTuple [re, im]), m))"

text \<open>
  One step of the rollout as the contract describes it: \<open>cur\<close> is what the model returns
  for the previous pair of fields and the time slice \<open>t\<close> of the potential.
\<close>

definition predicts ::
  "('m \<Rightarrow> real tensor \<Rightarrow> real tensor \<Rightarrow> real tensor \<Rightarrow> (error + pyval) \<times> 'm) \<Rightarrow> 'm
     \<Rightarrow> real tensor \<Rightarrow> nat \<Rightarrow> real tensor \<times> real tensor \<Rightarrow> real tensor \<times> real tensor \<Rightarrow> bool" where
  "predicts call model potential t prev cur \<longleftrightarrow>
     (\<exists>v out. select0 potential (int t) = Inr v
            \<and> fst (call model (fst prev) (snd prev) (unsqueeze0 v)) = Inr out
            \<and> unpack2 out = Inr cur)"

text \<open>
  What \<^verbatim>\<open>__init__\<close> fixes about a model of the first class and no later step
  changes: the widths of the two linear layers and of the encoder, and the positional
  table of \<open>L\<close> rows and \<open>D\<close> columns.
\<close>

definition architecture :: "QuantumTransformer \<Rightarrow> nat \<Rightarrow> nat \<Rightarrow> bool" where
  "architecture m L D \<longleftrightarrow>
     in_features (embedding m) = 3 \<and> out_features (embedding m) = D \<and>
     positional_encoding m = pe_table L D \<and>
     enc_d_model (transformer_encoder m) = D \<and>
     in_features (output_layer m) = D \<and> out_features (output_layer m) = 2"

section \<open>Trainer: losses\<close>

text \<open>
  A loss value is a float; the only non-real value that the loop can produce without
  rounding is the NaN of a mean over no elements.
\<close>

datatype loss_value = Finite real | NaN

fun loss_add :: "loss_value \<Rightarrow> loss_value \<Rightarrow> loss_value" where
  "loss_add (Finite a) (Finite b) = Finite (a + b)"
| "loss_add _ _ = NaN"

fun loss_div :: "loss_value \<Rightarrow> nat \<Rightarrow> error + loss_value" where
  "loss_div v 0 = Inl ZeroDivision"
| "loss_div (Finite a) n = Inr (Finite (a / real n))"
| "loss_div NaN n = Inr NaN"

text \<open>
  \<^verbatim>\<open>torch.nn.MSELoss()\<close>: the mean over all elements of the squared differences,
  after broadcasting the two tensors to a common shape.
\<close>

definition mse_loss :: "real tensor \<Rightarrow> real tensor \<Rightarrow> error + loss_value" where
  "mse_loss input target =
     (case broadcast_shapes (shape input) (shape target) of
        None \<Rightarrow> Inl BroadcastMismatch
      | Some s \<Rightarrow>
          if prod_list s = 0 then Inr NaN
          else Inr (Finite (sum_list (map2 (\<lambda>a b. (a - b)\<^sup>2)
                                       (data (expand_to input s)) (data (expand_to target s)))
                            / real (prod_list s))))"

section \<open>The model as an object\<close>

text \<open>
  A call of a library module, with the module handed back: in a forward pass
  \<^verbatim>\<open>nn.Linear\<close> and \<^verbatim>\<open>nn.TransformerEncoder\<close> read their weights and assign to
  none of their attributes.
\<close>

definition Linear_call :: "linear \<Rightarrow> real tensor \<Rightarrow> (error + real tensor) \<times> linear" where
  "Linear_call l x = (linear_apply l x, l)"

definition TransformerEncoder_call ::
  "encoder \<Rightarrow> bool \<Rightarrow> real tensor \<Rightarrow> (error + real tensor) \<times> encoder" where
  "TransformerEncoder_call e mode x = (encoder_apply e mode x, e)"

text \<open>
  Sequencing of statements that may raise, with the object \<^verbatim>\<open>self\<close> passed along: an
  exception leaves the object as the statements before it left it.
\<close>

definition bind_self ::
  "(error + 'a) \<times> 's \<Rightarrow> ('a \<Rightarrow> 's \<Rightarrow> (error + 'b) \<times> 's) \<Rightarrow> (error + 'b) \<times> 's" where
  "bind_self m f = (case m of (Inl e, s) \<Rightarrow> (Inl e, s) | (Inr x, s) \<Rightarrow> f x s)"

text \<open>
  \<^verbatim>\<open>QuantumTransformer.forward\<close> as the method of an object: the statements of
  \<open>forward\<close> in their order, each sub-module called through \<^verbatim>\<open>self\<close> and put back
  where it was read from. The result is the returned tensor (or the exception) and the
  object after the call.
\<close>

definition forward_self ::
  "QuantumTransformer \<Rightarrow> real tensor \<Rightarrow> real tensor \<Rightarrow> real tensor
     \<Rightarrow> (error + real tensor) \<times> QuantumTransformer" where
  "forward_self self0 psi_real psi_imag potential =
     bind_self (stack3_last psi_real psi_imag potential, self0) (\<lambda>x0 self.
       (case shape x0 of
          [batch_size, seq_length, n_grid, _] \<Rightarrow>
            bind_self (view x0 [batch_size, seq_length * n_grid, 3], self) (\<lambda>x1 self.
            bind_self (case Linear_call (embedding self) x1 of
                         (r, l) \<Rightarrow> (r, self\<lparr>embedding := l\<rparr>)) (\<lambda>x2 self.
            bind_self (size_at x2 1, self) (\<lambda>n self.
            bind_self (slice1 (positional_encoding self) n, self) (\<lambda>pe self.
            bind_self (add_tensors x2 pe, self) (\<lambda>x3 self.
            bind_self (case TransformerEncoder_call (transformer_encoder self)
                              (training self) x3 of
                         (r, e) \<Rightarrow> (r, self\<lparr>transformer_encoder := e\<rparr>)) (\<lambda>x4 self.
            bind_self (case Linear_call (output_layer self) x4 of
                         (r, l) \<Rightarrow> (r, self\<lparr>output_layer := l\<rparr>)) (\<lambda>x5 self.
              (view x5 [batch_size, seq_length, n_grid, 2], self))))))))
        | _ \<Rightarrow> (Inl UnpackMismatch, self)))"

section \<open>The notebook's objects\<close>

text \<open>
  The objects that the training and the propagation cells share: the module \<^verbatim>\<open>model\<close>
  (its learned weights are \<open>model_parameters\<close>), the optimizer, which was constructed on
  \<^verbatim>\<open>model.parameters()\<close> and therefore updates the weights of this module in place,
  the \<^verbatim>\<open>.grad\<close> fields of the parameters (\<open>None\<close> when unset), and the interpreter's
  gradient mode (\<^verbatim>\<open>torch.is_grad_enabled()\<close>). \<open>nb_steps\<close> is kept for the analysis
  only: it counts the updates that \<^verbatim>\<open>optimizer.step()\<close> has applied.
\<close>

record ('o, 'g) notebook =
  nb_model :: QuantumTransformer
  nb_optimizer :: 'o
  nb_grad :: "'g option"
  nb_grad_enabled :: bool
  nb_steps :: nat

text \<open>
  \<^verbatim>\<open>model(psi_real, psi_imag, potential)\<close>. The parameters require gradients, so the
  result is recorded for differentiation (has a \<^verbatim>\<open>grad_fn\<close>) exactly when the gradient
  mode is on; the second component of a result says so.
\<close>

definition module_call ::
  "('o, 'g) notebook \<Rightarrow> real tensor \<Rightarrow> real tensor \<Rightarrow> real tensor
     \<Rightarrow> (error + (real tensor \<times> bool)) \<times> ('o, 'g) notebook" where
  "module_call nb a b c =
     (case forward_self (nb_model nb) a b c of
        (Inl e, self) \<Rightarrow> (Inl e, nb\<lparr>nb_model := self\<rparr>)
      | (Inr out, self) \<Rightarrow> (Inr (out, nb_grad_enabled nb), nb\<lparr>nb_model := self\<rparr>))"

text \<open>
  \<^verbatim>\<open>with torch.no_grad(): ...\<close> switches the gradient mode off for its body and puts
  the previous mode back afterwards, also when the body raises.
\<close>

definition no_grad ::
  "(('o, 'g) notebook \<Rightarrow> 'r \<times> ('o, 'g) notebook) \<Rightarrow> ('o, 'g) notebook
     \<Rightarrow> 'r \<times> ('o, 'g) notebook" where
  "no_grad body nb =
     (case body (nb\<lparr>nb_grad_enabled := False\<rparr>) of
        (r, nb') \<Rightarrow> (r, nb'\<lparr>nb_grad_enabled := nb_grad_enabled nb\<rparr>))"


definition notebook_train :: "('o, 'g) notebook \<Rightarrow> ('o, 'g) notebook" where
  "notebook_train nb = nb\<lparr>nb_model := (nb_model nb)\<lparr>training := True\<rparr>\<rparr>"

definition propagator_call ::
  "('o, 'g) notebook \<Rightarrow> real tensor \<Rightarrow> real tensor \<Rightarrow> real tensor
     \<Rightarrow> (error + pyval) \<times> ('o, 'g) notebook" where
  "propagator_call nb a b c =
     (case no_grad (\<lambda>s. module_call s a b c) nb of
        (Inl e, nb') \<Rightarrow> (Inl e, nb')
      | (Inr (out, tracked), nb') \<Rightarrow> (Inr (PTensor out), nb'))"

section \<open>Trainer: the training loop\<close>

text \<open>
  Automatic differentiation and the optimizer's update rule are the library's.
  \<open>backward m batch old\<close> stands for what the \<^verbatim>\<open>.grad\<close> fields hold after
  \<^verbatim>\<open>loss.backward()\<close> for the loss of the batch at the weights of \<open>m\<close>, when they
  held \<open>old\<close> before; \<open>step s w g\<close> stands for the new optimizer state and weights that
  Adam makes of state \<open>s\<close>, weights \<open>w\<close> and gradients \<open>g\<close> (the learning rate is part
  of \<open>step\<close>).

  \<^verbatim>\<open>optimizer.zero_grad()\<close> unsets the gradients. \<^verbatim>\<open>loss.backward()\<close> raises when
  the loss was not recorded for differentiation and otherwise writes the gradients.
  \<^verbatim>\<open>optimizer.step()\<close> skips parameters without gradients and otherwise writes the new
  weights into the module.
\<close>

type_synonym batch = "real tensor \<times> real tensor"

definition zero_grad :: "('o, 'g) notebook \<Rightarrow> ('o, 'g) notebook" where
  "zero_grad nb = nb\<lparr>nb_grad := None\<rparr>"

definition loss_backward ::
  "(QuantumTransformer \<Rightarrow> batch \<Rightarrow> 'g option \<Rightarrow> 'g) \<Rightarrow> bool \<Rightarrow> batch \<Rightarrow> ('o, 'g) notebook
     \<Rightarrow> error + ('o, 'g) notebook" where
  "loss_backward backward tracked b nb =
     (if tracked then Inr (nb\<lparr>nb_grad := Some (backward (nb_model nb) b (nb_grad nb))\<rparr>)
      else Inl NoGradFn)"

definition optimizer_step ::
  "('o \<Rightarrow> parameters \<Rightarrow> 'g \<Rightarrow> 'o \<times> parameters) \<Rightarrow> ('o, 'g) notebook \<Rightarrow> ('o, 'g) notebook" where
  "optimizer_step step nb =
     (case nb_grad nb of
        None \<Rightarrow> nb
      | Some g \<Rightarrow>
          (case step (nb_optimizer nb) (model_parameters (nb_model nb)) g of
             (s', w') \<Rightarrow> nb\<lparr>nb_model := set_parameters (nb_model nb) w',
                             nb_optimizer := s',
                             nb_steps := Suc (nb_steps nb)\<rparr>))"

definition train_batch ::
  "(QuantumTransformer \<Rightarrow> batch \<Rightarrow> 'g option \<Rightarrow> 'g) \<Rightarrow> ('o \<Rightarrow> parameters \<Rightarrow> 'g \<Rightarrow> 'o \<times> parameters)
     \<Rightarrow> ('o, 'g) notebook \<Rightarrow> batch \<Rightarrow> error + (('o, 'g) notebook \<times> loss_value)" where
  "train_batch backward step nb b =
     (case b of (X, y) \<Rightarrow>
        bind_err (select_last X 0) (\<lambda>psi_real.
        bind_err (select_last X 1) (\<lambda>psi_imag.
        bind_err (select_last X 2) (\<lambda>potential.
          (case module_call (zero_grad nb) psi_real psi_imag potential of
             (Inl e, nb1) \<Rightarrow> Inl e
           | (Inr (output, tracked), nb1) \<Rightarrow>
               bind_err (mse_loss output y) (\<lambda>loss.
               bind_err (loss_backward backward tracked (X, y) nb1) (\<lambda>nb2.
                 Inr (optimizer_step step nb2, loss))))))))"

text \<open>
  The inner loop \<^verbatim>\<open>for X, y in train_loader\<close>; \<open>total_loss\<close> is the running sum and
  \<open>losses\<close> the list of the values added to it, in order.
\<close>

fun train_batches ::
  "(QuantumTransformer \<Rightarrow> batch \<Rightarrow> 'g option \<Rightarrow> 'g) \<Rightarrow> ('o \<Rightarrow> parameters \<Rightarrow> 'g \<Rightarrow> 'o \<times> parameters)
     \<Rightarrow> ('o, 'g) notebook \<Rightarrow> loss_value \<Rightarrow> loss_value list \<Rightarrow> batch list
     \<Rightarrow> error + (('o, 'g) notebook \<times> loss_value \<times> loss_value list)" where
  "train_batches backward step nb total_loss losses [] = Inr (nb, total_loss, losses)"
| "train_batches backward step nb total_loss losses (b # bs) =
     (case train_batch backward step nb b of
        Inl e \<Rightarrow> Inl e
      | Inr (nb', loss) \<Rightarrow>
          train_batches backward step nb' (loss_add total_loss loss) (losses @ [loss]) bs)"

text \<open>
  One pass of the outer loop. \<open>batches\<close> are the batches that the loader yields in this
  epoch (with \<^verbatim>\<open>shuffle=True\<close> a new random batching every epoch), and
  \<^verbatim>\<open>len(train_loader)\<close> is their number. The result is the state after the epoch, the
  per-batch losses, and the value printed.
\<close>

definition train_epoch ::
  "(QuantumTransformer \<Rightarrow> batch \<Rightarrow> 'g option \<Rightarrow> 'g) \<Rightarrow> ('o \<Rightarrow> parameters \<Rightarrow> 'g \<Rightarrow> 'o \<times> parameters)
     \<Rightarrow> ('o, 'g) notebook \<Rightarrow> batch list
     \<Rightarrow> error + (('o, 'g) notebook \<times> loss_value list \<times> loss_value)" where
  "train_epoch backward step nb batches =
     (case train_batches backward step (notebook_train nb) (Finite 0) [] batches of
        Inl e \<Rightarrow> Inl e
      | Inr (nb', total_loss, losses) \<Rightarrow>
          (case loss_div total_loss (length batches) of
             Inl e \<Rightarrow> Inl e
           | Inr mean \<Rightarrow> Inr (nb', losses, mean)))"

text \<open>
  The outer loop \<^verbatim>\<open>for epoch in range(num_epochs)\<close>. It returns the final state, the
  per-batch losses of every epoch, and the values printed, one per epoch.
\<close>

fun train_epochs ::
  "(QuantumTransformer \<Rightarrow> batch \<Rightarrow> 'g option \<Rightarrow> 'g) \<Rightarrow> ('o \<Rightarrow> parameters \<Rightarrow> 'g \<Rightarrow> 'o \<times> parameters)
     \<Rightarrow> (nat \<Rightarrow> batch list) \<Rightarrow> ('o, 'g) notebook \<Rightarrow> loss_value list list \<Rightarrow> loss_value list
     \<Rightarrow> nat list
     \<Rightarrow> error + (('o, 'g) notebook \<times> loss_value list list \<times> loss_value list)" where
  "train_epochs backward step train_loader nb hist printed [] = Inr (nb, hist, printed)"
| "train_epochs backward step train_loader nb hist printed (epoch # es) =
     (case train_epoch backward step nb (train_loader epoch) of
        Inl e \<Rightarrow> Inl e
      | Inr (nb', losses, mean) \<Rightarrow>
          train_epochs backward step train_loader nb' (hist @ [losses]) (printed @ [mean]) es)"

definition train ::
  "(QuantumTransformer \<Rightarrow> batch \<Rightarrow> 'g option \<Rightarrow> 'g) \<Rightarrow> ('o \<Rightarrow> parameters \<Rightarrow> 'g \<Rightarrow> 'o \<times> parameters)
     \<Rightarrow> ('o, 'g) notebook \<Rightarrow> (nat \<Rightarrow> batch list) \<Rightarrow> nat
     \<Rightarrow> error + (('o, 'g) notebook \<times> loss_value list list \<times> loss_value list)" where
  "train backward step nb train_loader num_epochs =
     train_epochs backward step train_loader nb [] [] [0..<num_epochs]"

section \<open>Trainer: what the contract says of it\<close>

text \<open>
  The contract of the Trainer in the words of the specification, stated apart from the
  loop above so that the two can be compared.

  A batch that a model with a positional table of \<open>L\<close> rows accepts: inputs of shape
  (batch, time, grid, 3), a target of shape (batch, time, grid, 2) with as many elements
  as its shape has, and at most \<open>L\<close> tokens.
\<close>

definition batch_fits :: "nat \<Rightarrow> batch \<Rightarrow> bool" where
  "batch_fits L b \<longleftrightarrow>
     (\<exists>B T G. shape (fst b) = [B, T, G, 3] \<and> shape (snd b) = [B, T, G, 2]
            \<and> length (data (snd b)) = B * T * G * 2 \<and> T * G \<le> L)"

text \<open>
  \<open>l\<close> is the per-element mean squared error between the output of model \<open>m\<close> on the
  three channels of the batch input and the batch target (NaN when there is no element).
\<close>

definition batch_mse :: "QuantumTransformer \<Rightarrow> batch \<Rightarrow> loss_value \<Rightarrow> bool" where
  "batch_mse m b l \<longleftrightarrow>
     (\<exists>psi_real psi_imag potential output.
        select_last (fst b) 0 = Inr psi_real \<and> select_last (fst b) 1 = Inr psi_imag
      \<and> select_last (fst b) 2 = Inr potential
      \<and> forward m psi_real psi_imag potential = Inr output
      \<and> shape output = shape (snd b)
      \<and> l = (if data output = [] then NaN
              else Finite (sum_list (map2 (\<lambda>p t. (p - t)\<^sup>2) (data output) (data (snd b)))
                           / real (length (data output)))))"

text \<open>
  One parameter update for a batch: the gradients of the batch loss at the current
  weights, and the weights and optimizer state that the optimizer makes of them.
\<close>

definition one_update ::
  "(QuantumTransformer \<Rightarrow> batch \<Rightarrow> 'g option \<Rightarrow> 'g) \<Rightarrow> ('o \<Rightarrow> parameters \<Rightarrow> 'g \<Rightarrow> 'o \<times> parameters)
     \<Rightarrow> ('o, 'g) notebook \<Rightarrow> batch \<Rightarrow> ('o, 'g) notebook" where
  "one_update backward step nb b =
     (let g = backward (nb_model nb) b None;
          r = step (nb_optimizer nb) (model_parameters (nb_model nb)) g
      in nb\<lparr>nb_model := set_parameters (nb_model nb) (snd r),
             nb_optimizer := fst r,
             nb_grad := Some g,
             nb_steps := Suc (nb_steps nb)\<rparr>)"

text \<open>The mean of the losses of an epoch, as floats add and divide.\<close>

primrec loss_real :: "loss_value \<Rightarrow> real" where
  "loss_real (Finite a) = a"
| "loss_real NaN = 0"

definition mean_loss :: "loss_value list \<Rightarrow> loss_value" where
  "mean_loss ls =
     (if NaN \<in> set ls then NaN
      else Finite (sum_list (map loss_real ls) / real (length ls)))"

section \<open>A small concrete model\<close>

text \<open>
  Weights for evaluating the two classes on small inputs: width 2, one attention head,
  one encoder layer, feed-forward width 1, no dropout. The embedding keeps the real and
  imaginary parts and the output layer is the identity. In the encoder layer the query
  and key projections are zero, so that attention weighs all positions of a sequence
  equally, the value and output projections are the identity, the feed-forward block is
  zero, and the two normalisations have weight 1 and bias 0 and the library's default
  \<open>eps = 1e-5\<close>.
\<close>

definition example_attention :: multihead_attention where
  "example_attention =
     \<lparr>num_heads = 1,
      q_proj = \<lparr>in_features = 2, out_features = 2, weight = [[0, 0], [0, 0]], bias = [0, 0]\<rparr>,
      k_proj = \<lparr>in_features = 2, out_features = 2, weight = [[0, 0], [0, 0]], bias = [0, 0]\<rparr>,
      v_proj = \<lparr>in_features = 2, out_features = 2, weight = [[1, 0], [0, 1]], bias = [0, 0]\<rparr>,
      out_proj = \<lparr>in_features = 2, out_features = 2, weight = [[1, 0], [0, 1]], bias = [0, 0]\<rparr>\<rparr>"

definition example_layer :: encoder_layer where
  "example_layer =
     \<lparr>self_attn = example_attention,
      linear1 = \<lparr>in_features = 2, out_features = 1, weight = [[0, 0]], bias = [0]\<rparr>,
      linear2 = \<lparr>in_features = 1, out_features = 2, weight = [[0], [0]], bias = [0, 0]\<rparr>,
      norm1_weight = [1, 1], norm1_bias = [0, 0],
      norm2_weight = [1, 1], norm2_bias = [0, 0],
      layer_norm_eps = 1 / 100000\<rparr>"

definition example_weights :: parameters where
  "example_weights =
     \<lparr>embedding_weight = [[1, 0, 0], [0, 1, 0]], embedding_bias = [0, 0],
      encoder_weights = transformer_encoder_forward [example_layer],
      output_weight = [[1, 0], [0, 1]], output_bias = [0, 0]\<rparr>"

text \<open>
  With these normalisation weights a layer normalisation maps a pair \<open>(u, v)\<close> to
  \<open>(normalise w, - normalise w)\<close> for \<open>w = (u - v) / 2\<close>.
\<close>

definition normalise :: "real \<Rightarrow> real" where
  "normalise w = w / sqrt (w\<^sup>2 + 1 / 100000)"

text \<open>
  The models that the two constructors make of these weights for width 2, the first with
  \<^verbatim>\<open>seq_length=1, n_grid=2\<close> (a positional table of two rows), the second with
  \<^verbatim>\<open>n_grid=1\<close>.
\<close>

definition example_model :: QuantumTransformer where
  "example_model =
     \<lparr>embedding = \<lparr>in_features = 3, out_features = 2,
                    weight = [[1, 0, 0], [0, 1, 0]], bias = [0, 0]\<rparr>,
      positional_encoding = pe_table 2 2,
      transformer_encoder = \<lparr>enc_d_model = 2, enc_batch_first = False,
                              enc_layers = transformer_encoder_forward [example_layer]\<rparr>,
      output_layer = \<lparr>in_features = 2, out_features = 2,
                       weight = [[1, 0], [0, 1]], bias = [0, 0]\<rparr>,
      training = True\<rparr>"

definition example_model2 :: QuantumTransformer2 where
  "example_model2 =
     \<lparr>self_n_grid = 1, self_d_model = 2,
      input_proj = \<lparr>in_features = 3, out_features = 2,
                     weight = [[1, 0, 0], [0, 1, 0]], bias = [0, 0]\<rparr>,
      output_proj = \<lparr>in_features = 2, out_features = 2,
                      weight = [[1, 0], [0, 1]], bias = [0, 0]\<rparr>,
      self_pe = pe_table 1000 2,
      transformer_encoder2 = \<lparr>enc_d_model = 2, enc_batch_first = True,
                               enc_layers = transformer_encoder_forward [example_layer]\<rparr>,
      training2 = True\<rparr>"

section \<open>Basic facts\<close>

lemma bind_err_Inr [simp]: "bind_err (Inr x) f = f x"
  by (simp add: bind_err_def)

lemma bind_err_Inl [simp]: "bind_err (Inl e) f = Inl e"
  by (simp add: bind_err_def)

lemma view_same_count:
  "prod_list s = prod_list (shape t) \<Longrightarrow> view t s = Inr (t\<lparr>shape := s\<rparr>)"
  by (simp add: view_def)

lemma select0_shape:
  assumes "shape t = d # ds" and "- int d \<le> i" and "i < int d"
  shows "\<exists>r. select0 t i = Inr r \<and> shape r = ds"
  using assms by (simp add: select0_def Let_def)

lemma length_rows [simp]: "length (rows k n xs) = k"
  by (induction k arbitrary: xs) auto

lemma rows_numeral:
  "rows (numeral k) n xs = take n xs # rows (pred_numeral k) n (drop n xs)"
  by (simp add: numeral_eq_Suc)

lemma length_concat_const:
  assumes "\<And>x. x \<in> set xs \<Longrightarrow> length (f x) = c"
  shows "length (concat (map f xs)) = length xs * c"
  using assms by (induction xs) auto

lemma length_affine [simp]: "length (affine l v) = out_features l"
  by (simp add: affine_def)

lemma length_linear_data:
  "length (concat (map (affine l) (rows k n xs))) = k * out_features l"
  by (simp add: length_concat_const)

lemma linear_apply_ok:
  assumes "shape t = s @ [in_features l]"
  shows "linear_apply l t =
           Inr \<lparr>shape = s @ [out_features l],
                data = concat (map (affine l) (rows (prod_list s) (in_features l) (data t)))\<rparr>"
  using assms by (simp add: linear_apply_def)

lemma stack3_last_ok:
  assumes "shape b = shape a" and "shape c = shape a"
  shows "stack3_last a b c =
           Inr \<lparr>shape = shape a @ [3], data = interleave3 (data a) (data b) (data c)\<rparr>"
  using assms by (simp add: stack3_last_def)

lemma select0_Inr_shape:
  assumes "select0 t i = Inr v"
  shows "\<exists>d. shape t = d # shape v"
  using assms by (auto simp: select0_def Let_def split: list.splits if_splits)

lemma upt_pos: "0 < N \<Longrightarrow> [0..<N] = 0 # [1..<N]"
  by (simp add: upt_rec)

subsection \<open>The positional table\<close>

lemma pe_table_get:
  assumes "p < L" and "j < D"
  shows "get (pe_table L D) [0, p, j] = pe_entry D p j"
proof -
  have "p * D + j < (p + 1) * D" using assms by simp
  also have "\<dots> \<le> L * D" using assms by (intro mult_le_mono1) simp
  finally have "p * D + j < L * D" .
  then show ?thesis using assms
    by (simp add: get_def pe_table_def)
qed

lemma div_term_powr:
  "0 < D \<Longrightarrow> real p * div_term D i = real p / 10000 powr (real (2 * i) / real D)"
  by (simp add: div_term_def powr_def exp_minus field_simps)

lemma create_positional_encoding_Inr:
  assumes "create_positional_encoding L D = Inr pe"
  shows "pe = pe_table L D" and "0 < D"
  using assms by (auto simp: create_positional_encoding_def split: if_splits)

lemma slice1_pe_table_eq: "slice1 (pe_table L D) n = Inr (pe_table (min n L) D)"
proof -
  have "take (min n L * D) (map f [0..<L * D]) = map f [0..<min n L * D]"
    for f :: "nat \<Rightarrow> real"
  proof -
    have "min n L * D \<le> L * D" by (simp add: mult_le_mono1)
    then show ?thesis by (simp add: take_map min_def)
  qed
  then show ?thesis
    by (simp add: slice1_def pe_table_def)
qed

lemma pe_table_row0: "pe_table (Suc 0) 2 = \<lparr>shape = [1, 1, 2], data = [0, 1]\<rparr>"
  unfolding pe_table_def by (simp add: pe_entry_def upt_rec)

subsection \<open>The forward pass of the first class\<close>

lemma broadcast_batch: "broadcast_shapes [B, N, D] [1, N, D] = Some [B, N, D]"
  by (simp add: broadcast_shapes_def)

lemma add_tensors_batch:
  assumes "shape a = [B, N, D]" and "shape b = [1, N, D]"
  shows "\<exists>r. add_tensors a b = Inr r \<and> shape r = [B, N, D]"
  using assms broadcast_batch [of B N D] by (simp add: add_tensors_def)

lemma encoder_apply_shape:
  assumes "shape t = [d0, d1, enc_d_model e]"
  shows "\<exists>r. encoder_apply e mode t = Inr r \<and> shape r = shape t"
  using assms by (simp add: encoder_apply_def Let_def)

lemma init_architecture:
  assumes "QuantumTransformer_init w d_model seq_length n_grid = Inr m"
  shows "architecture m (seq_length * n_grid) d_model"
proof -
  obtain pe where pe: "create_positional_encoding (seq_length * n_grid) d_model = Inr pe"
    using assms
    by (cases "create_positional_encoding (seq_length * n_grid) d_model")
       (simp_all add: QuantumTransformer_init_def)
  then have "pe = pe_table (seq_length * n_grid) d_model"
    by (rule create_positional_encoding_Inr)
  then show ?thesis
    using assms pe by (auto simp: QuantumTransformer_init_def architecture_def)
qed

lemma architecture_training [simp]:
  "architecture (m\<lparr>training := mode\<rparr>) L D = architecture m L D"
  by (simp add: architecture_def)

lemma architecture_set_parameters [simp]:
  "architecture (set_parameters m w) L D = architecture m L D"
  by (simp add: architecture_def set_parameters_def)

lemma forward_shape_arch:
  assumes arch: "architecture m L D"
    and sr: "shape psi_real = [B, T, G]" and si: "shape psi_imag = [B, T, G]"
    and sp: "shape potential = [B, T, G]" and len: "T * G \<le> L"
  shows "\<exists>out. forward m psi_real psi_imag potential = Inr out
            \<and> shape out = [B, T, G, 2] \<and> length (data out) = B * T * G * 2"
proof -
  let ?x0 = "\<lparr>shape = shape psi_real @ [3],
              data = interleave3 (data psi_real) (data psi_imag) (data potential)\<rparr>"
  have st: "stack3_last psi_real psi_imag potential = Inr ?x0"
    using sr si sp by (simp add: stack3_last_ok)
  have s0: "shape ?x0 = [B, T, G, 3]" using sr by simp
  let ?x1 = "?x0\<lparr>shape := [B, T * G, 3]\<rparr>"
  have v1: "view ?x0 [B, T * G, 3] = Inr ?x1"
    using sr by (simp add: view_def)
  have s1: "shape ?x1 = [B, T * G] @ [in_features (embedding m)]"
    using arch by (simp add: architecture_def)
  let ?x2 = "\<lparr>shape = [B, T * G] @ [out_features (embedding m)],
              data = concat (map (affine (embedding m))
                       (rows (prod_list [B, T * G]) (in_features (embedding m)) (data ?x1)))\<rparr>"
  have l2: "linear_apply (embedding m) ?x1 = Inr ?x2"
    by (rule linear_apply_ok [OF s1])
  have s2: "shape ?x2 = [B, T * G, D]"
    using arch by (simp add: architecture_def)
  have n2: "size_at ?x2 1 = Inr (T * G)"
    by (simp add: size_at_def)
  have pe: "slice1 (positional_encoding m) (T * G) = Inr (pe_table (T * G) D)"
    using arch len by (simp add: architecture_def slice1_pe_table_eq min_def)
  have spe: "shape (pe_table (T * G) D) = [1, T * G, D]"
    by (simp add: pe_table_def)
  obtain x3 where x3: "add_tensors ?x2 (pe_table (T * G) D) = Inr x3" "shape x3 = [B, T * G, D]"
    using add_tensors_batch [OF s2 spe] by blast
  have s3: "shape x3 = [B, T * G, enc_d_model (transformer_encoder m)]"
    using x3(2) arch by (simp add: architecture_def)
  obtain x4 where x4: "encoder_apply (transformer_encoder m) (training m) x3 = Inr x4"
      "shape x4 = shape x3"
    using encoder_apply_shape [OF s3] by blast
  have s4: "shape x4 = [B, T * G] @ [in_features (output_layer m)]"
    using x4(2) x3(2) arch by (simp add: architecture_def)
  let ?x5 = "\<lparr>shape = [B, T * G] @ [out_features (output_layer m)],
              data = concat (map (affine (output_layer m))
                       (rows (prod_list [B, T * G]) (in_features (output_layer m)) (data x4)))\<rparr>"
  have l5: "linear_apply (output_layer m) x4 = Inr ?x5"
    by (rule linear_apply_ok [OF s4])
  have s5: "shape ?x5 = [B, T * G, 2]"
    using arch by (simp add: architecture_def)
  have d5: "length (data ?x5) = B * T * G * 2"
    using arch by (simp add: length_linear_data architecture_def)
  have v6: "view ?x5 [B, T, G, 2] = Inr (?x5\<lparr>shape := [B, T, G, 2]\<rparr>)"
    using s5 by (simp add: view_def)
  have "forward m psi_real psi_imag potential = Inr (?x5\<lparr>shape := [B, T, G, 2]\<rparr>)"
    unfolding forward_def st bind_err_Inr s0 list.case v1 l2 n2 pe x3(1) x4(1) l5 v6 ..
  then show ?thesis using d5 by simp
qed

lemma forward_stack_mismatch:
  assumes "shape psi_imag \<noteq> shape psi_real \<or> shape potential \<noteq> shape psi_real"
  shows "forward m psi_real psi_imag potential = Inl StackSizeMismatch"
  using assms by (auto simp: forward_def stack3_last_def)

lemma forward_rank2:
  assumes "shape psi_real = [a, b]" and "shape psi_imag = [a, b]" and "shape potential = [a, b]"
  shows "forward m psi_real psi_imag potential = Inl UnpackMismatch"
  using assms by (simp add: forward_def stack3_last_def)

lemma forward2_rank2:
  assumes "shape psi_real = [a, b]"
  shows "forward2 m psi_real psi_imag potential = Inl UnpackMismatch"
  using assms by (simp add: forward2_def)

lemma forward_Inr_shape:
  assumes "forward m psi_real psi_imag potential = Inr out"
  shows "\<exists>B T G. shape psi_real = [B, T, G] \<and> shape potential = [B, T, G]
                \<and> shape out = [B, T, G, 2]"
proof -
  obtain x0 where x0: "stack3_last psi_real psi_imag potential = Inr x0"
    using assms by (cases "stack3_last psi_real psi_imag potential") (simp_all add: forward_def)
  then have eq: "shape potential = shape psi_real" and sx: "shape x0 = shape psi_real @ [3]"
    by (auto simp: stack3_last_def split: if_splits)
  obtain B T G c where s4: "shape x0 = [B, T, G, c]"
    using assms x0 by (auto simp: forward_def split: list.splits)
  have "shape psi_real = [B, T, G]" using sx s4
    by (metis butlast.simps(2) butlast_snoc list.distinct(1))
  moreover have "shape out = [B, T, G, 2]"
    using assms x0 s4
    by (auto simp: forward_def bind_err_def view_def split: sum.splits if_splits)
  ultimately show ?thesis using eq by simp
qed

subsection \<open>The concrete models\<close>


lemma example_model_init: "QuantumTransformer_init example_weights 2 1 2 = Inr example_model"
  by (simp add: QuantumTransformer_init_def create_positional_encoding_def example_weights_def
      example_model_def)

lemma example_model2_init: "QuantumTransformer2_init example_weights 1 2 = Inr example_model2"
  by (simp add: QuantumTransformer2_init_def PositionalEncoding_init_def example_weights_def
      example_model2_def)

subsection \<open>The propagator\<close>

lemma propagate_zero:
  "propagate_wavefunction set_eval call model re im potential 0 = (Inr [], set_eval model)"
  by (simp add: propagate_wavefunction_def)

lemma propagate_first_class_raises:
  assumes "0 < N"
  shows "\<exists>e. fst (propagate_wavefunction model_eval model_call m re im potential N) = Inl e"
proof (cases "select0 potential 0")
  case (Inl e)
  then show ?thesis using assms
    by (simp add: propagate_wavefunction_def upt_pos)
next
  case (Inr v)
  show ?thesis
  proof (cases "forward (model_eval m) re im (unsqueeze0 v)")
    case (Inl e)
    then show ?thesis using assms Inr
      by (simp add: propagate_wavefunction_def upt_pos model_call_def)
  next
    case out: (Inr out)
    from forward_Inr_shape [OF this] obtain B T G where
      s: "shape (unsqueeze0 v) = [B, T, G]" "shape out = [B, T, G, 2]" by blast
    then have "B = 1" by (simp add: unsqueeze0_def)
    then have "unpack2 (PTensor out) = Inl UnpackMismatch"
      using s(2) by (simp add: unpack2_def)
    then show ?thesis using assms Inr out
      by (simp add: propagate_wavefunction_def upt_pos model_call_def)
  qed
qed

lemma propagate_documented_shapes:
  assumes "0 < N" and "shape re = [1, G]" and "shape im = [1, G]"
    and "shape potential = [M, G]" and "0 < M"
  shows "fst (propagate_wavefunction model_eval model_call m re im potential N)
           = Inl UnpackMismatch"
    and "fst (propagate_wavefunction model_eval2 model_call2 m2 re im potential N)
           = Inl UnpackMismatch"
proof -
  obtain v where v: "select0 potential 0 = Inr v" "shape v = [G]"
    using assms(4,5) by (simp add: select0_def)
  have sv: "shape (unsqueeze0 v) = [1, G]" using v(2) by (simp add: unsqueeze0_def)
  show "fst (propagate_wavefunction model_eval model_call m re im potential N)
          = Inl UnpackMismatch"
    using assms(1) v(1) forward_rank2 [OF assms(2) assms(3) sv]
    by (simp add: propagate_wavefunction_def upt_pos model_call_def)
  show "fst (propagate_wavefunction model_eval2 model_call2 m2 re im potential N)
          = Inl UnpackMismatch"
    using assms(1) v(1) forward2_rank2 [OF assms(2)]
    by (simp add: propagate_wavefunction_def upt_pos model_call2_def)
qed

lemma propagate_grid_mismatch:
  assumes "0 < N" and "shape re = [1, G]" and "shape im = [1, G]"
    and "shape potential = [M, G']" and "0 < M" and "G' \<noteq> G"
  shows "\<exists>v. select0 potential 0 = Inr v
           \<and> forward (model_eval m) re im (unsqueeze0 v) = Inl StackSizeMismatch
           \<and> propagate_wavefunction model_eval model_call m re im potential N
               = (Inl StackSizeMismatch, model_eval m)"
proof -
  obtain v where v: "select0 potential 0 = Inr v" "shape v = [G']"
    using assms(4,5) by (simp add: select0_def)
  have "shape (unsqueeze0 v) \<noteq> shape re"
    using v(2) assms(2,6) by (simp add: unsqueeze0_def)
  then have f: "forward (model_eval m) re im (unsqueeze0 v) = Inl StackSizeMismatch"
    by (simp add: forward_stack_mismatch)
  then show ?thesis using assms(1) v(1)
    by (simp add: propagate_wavefunction_def upt_pos model_call_def)
qed


lemma propagate_steps_recurrence:
  assumes frame: "\<And>m a b c. snd (call m a b c) = m"
    and run: "fst (propagate_steps call potential ts model re im acc) = Inr xs"
  shows "\<exists>ps. xs = acc @ ps \<and> length ps = length ts
           \<and> (\<forall>k < length ts.
                 predicts call model potential (ts ! k)
                   (if k = 0 then (re, im) else ps ! (k - 1)) (ps ! k))"
  using run
proof (induction ts arbitrary: re im acc)
  case Nil
  then show ?case by simp
next
  case (Cons t ts)
  obtain v where v: "select0 potential (int t) = Inr v"
    using Cons.prems by (cases "select0 potential (int t)") simp_all
  obtain r where r: "call model re im (unsqueeze0 v) = (r, model)"
    using frame [of model re im "unsqueeze0 v"] by (metis prod.collapse)
  obtain out where out: "r = Inr out"
    using Cons.prems v r by (cases r) simp_all
  obtain r1 i1 where u: "unpack2 out = Inr (r1, i1)"
    using Cons.prems v r out by (cases "unpack2 out") auto
  have rest: "fst (propagate_steps call potential ts model r1 i1 (acc @ [(r1, i1)])) = Inr xs"
    using Cons.prems v r out u by simp
  obtain ps where ps: "xs = (acc @ [(r1, i1)]) @ ps" "length ps = length ts"
      "\<forall>k < length ts. predicts call model potential (ts ! k)
                          (if k = 0 then (r1, i1) else ps ! (k - 1)) (ps ! k)"
    using Cons.IH [OF rest] by blast
  have first: "predicts call model potential t (re, im) (r1, i1)"
    using v r out u by (auto simp: predicts_def)
  have each: "predicts call model potential ((t # ts) ! k)
                (if k = 0 then (re, im) else ((r1, i1) # ps) ! (k - 1)) (((r1, i1) # ps) ! k)"
    if "k < length (t # ts)" for k
  proof (cases k)
    case 0
    then show ?thesis using first by simp
  next
    case (Suc j)
    then have "j < length ts" using that by simp
    then have "predicts call model potential (ts ! j)
                 (if j = 0 then (r1, i1) else ps ! (j - 1)) (ps ! j)"
      using ps(3) by blast
    then show ?thesis using Suc by (cases j) simp_all
  qed
  have "xs = acc @ ((r1, i1) # ps)" "length ((r1, i1) # ps) = length (t # ts)"
    using ps(1,2) by simp_all
  then show ?case using each by blast
qed

lemma propagate_returns_N:
  assumes "\<And>m a b c. snd (call m a b c) = m"
    and "fst (propagate_wavefunction set_eval call model re im potential N) = Inr xs"
  shows "length xs = N
       \<and> (\<forall>t < N. predicts call (set_eval model) potential t
                      (if t = 0 then (re, im) else xs ! (t - 1)) (xs ! t))"
proof -
  have run: "fst (propagate_steps call potential [0..<N] (set_eval model) re im []) = Inr xs"
    using assms(2) by (simp add: propagate_wavefunction_def)
  obtain ps where ps: "xs = [] @ ps" "length ps = length [0..<N]"
      "\<forall>k < length [0..<N]. predicts call (set_eval model) potential ([0..<N] ! k)
                          (if k = 0 then (re, im) else ps ! (k - 1)) (ps ! k)"
    using propagate_steps_recurrence [OF assms(1) run] by blast
  then show ?thesis by (auto split: if_splits)
qed

lemma model_call_frame: "snd (model_call m a b c) = m"
  by (simp add: model_call_def split: sum.splits)

lemma model_call2_frame: "snd (model_call2 m a b c) = m"
  by (simp add: model_call2_def split: sum.splits prod.splits)

subsection \<open>The training loop\<close>

lemma bshape_rev_same: "bshape_rev xs xs = Some xs"
  by (induction xs) auto

lemma broadcast_shapes_same: "broadcast_shapes s s = Some s"
  by (simp add: broadcast_shapes_def bshape_rev_same)

lemma mse_loss_same_shape:
  assumes "shape a = shape b"
  shows "\<exists>l. mse_loss a b = Inr l"
  using assms by (simp add: mse_loss_def broadcast_shapes_same)

lemma select_last_channel:
  assumes "shape t = [B, T, G, 3]" and "c < 3"
  shows "\<exists>r. select_last t c = Inr r \<and> shape r = [B, T, G]"
  using assms by (simp add: select_last_def)

subsection \<open>The model as an object and the notebook's objects\<close>

text \<open>
  Threading \<^verbatim>\<open>self\<close> through \<open>forward\<close> gives the same result and hands the module
  back as it was; the same holds one level up, for the call inside
  \<^verbatim>\<open>torch.no_grad()\<close>.
\<close>

lemma forward_self_eq: "forward_self m a b c = (forward m a b c, m)"
  unfolding forward_self_def forward_def bind_self_def bind_err_def
    Linear_call_def TransformerEncoder_call_def
  by (simp split: sum.splits list.splits)

lemma module_call_eq:
  "module_call nb a b c =
     (case forward (nb_model nb) a b c of
        Inl e \<Rightarrow> (Inl e, nb) | Inr out \<Rightarrow> (Inr (out, nb_grad_enabled nb), nb))"
  by (simp add: module_call_def forward_self_eq split: sum.splits)

lemma model_parameters_set [simp]: "model_parameters (set_parameters m w) = w"
  by (simp add: model_parameters_def set_parameters_def)

lemma positional_encoding_set [simp]:
  "positional_encoding (set_parameters m w) = positional_encoding m"
  by (simp add: set_parameters_def)


lemma propagator_call_result:
  "fst (propagator_call nb a b c) = fst (model_call (nb_model nb) a b c)"
  by (simp add: propagator_call_def no_grad_def module_call_eq model_call_def
      split: sum.splits prod.splits)

subsection \<open>The loss and the inner and outer loop\<close>

lemma unravel_keep:
  "k < prod_list s \<Longrightarrow> map2 (\<lambda>d i. if d = 1 then 0 else i) s (unravel s k) = unravel s k"
proof (induction s arbitrary: k)
  case Nil
  then show ?case by simp
next
  case (Cons d ds)
  have pos: "0 < prod_list ds" using Cons.prems by (cases "prod_list ds = 0") simp_all
  have "k mod prod_list ds < prod_list ds" using pos by simp
  then have tl: "map2 (\<lambda>d i. if d = 1 then 0 else i) ds (unravel ds (k mod prod_list ds))
                   = unravel ds (k mod prod_list ds)"
    by (rule Cons.IH)
  have hd: "d = 1 \<Longrightarrow> k div prod_list ds = 0" using Cons.prems by simp
  show ?case using tl hd by simp
qed

lemma ravel_unravel: "k < prod_list s \<Longrightarrow> ravel s (unravel s k) = k"
proof (induction s arbitrary: k)
  case Nil
  then show ?case by simp
next
  case (Cons d ds)
  have pos: "0 < prod_list ds" using Cons.prems by (cases "prod_list ds = 0") simp_all
  have "ravel ds (unravel ds (k mod prod_list ds)) = k mod prod_list ds"
    using pos by (intro Cons.IH) simp
  then show ?case by simp
qed

lemma expand_to_same:
  assumes "length (data t) = prod_list (shape t)"
  shows "data (expand_to t (shape t)) = data t"
proof -
  have pt: "get t (map2 (\<lambda>d i. if d = 1 then 0 else i) (shape t) (unravel (shape t) k))
              = data t ! k" if "k < prod_list (shape t)" for k
    unfolding unravel_keep [OF that] get_def ravel_unravel [OF that] ..
  have "map (\<lambda>k. get t (map2 (\<lambda>d i. if d = 1 then 0 else i) (shape t) (unravel (shape t) k)))
            [0..<prod_list (shape t)]
          = map (\<lambda>k. data t ! k) [0..<prod_list (shape t)]"
    by (rule map_cong) (simp_all only: pt atLeastLessThan_iff set_upt)
  also have "\<dots> = data t" unfolding assms [symmetric] by (rule map_nth)
  finally show ?thesis unfolding expand_to_def by simp
qed

lemma mse_loss_explicit:
  assumes "shape a = shape b" and "length (data a) = prod_list (shape a)"
    and "length (data b) = prod_list (shape b)"
  shows "mse_loss a b =
           Inr (if data a = [] then NaN
                else Finite (sum_list (map2 (\<lambda>p t. (p - t)\<^sup>2) (data a) (data b))
                             / real (length (data a))))"
proof -
  have ea: "data (expand_to a (shape b)) = data a"
    using expand_to_same [OF assms(2)] assms(1) by simp
  have eb: "data (expand_to b (shape b)) = data b" using assms(3) by (rule expand_to_same)
  have z: "prod_list (shape b) = 0 \<longleftrightarrow> data a = []" using assms(1,2) by auto
  show ?thesis
    using assms(1,2) z by (simp add: mse_loss_def broadcast_shapes_same ea eb)
qed


lemma one_update_facts:
  "architecture (nb_model (one_update backward step nb b)) L D = architecture (nb_model nb) L D"
  "nb_grad_enabled (one_update backward step nb b) = nb_grad_enabled nb"
  "training (nb_model (one_update backward step nb b)) = training (nb_model nb)"
  "nb_steps (one_update backward step nb b) = Suc (nb_steps nb)"
  by (simp_all add: one_update_def Let_def) (simp add: set_parameters_def)

lemma updates_facts:
  "architecture (nb_model (foldl (one_update backward step) nb bs)) L D
     = architecture (nb_model nb) L D"
  "nb_grad_enabled (foldl (one_update backward step) nb bs) = nb_grad_enabled nb"
  "training (nb_model (foldl (one_update backward step) nb bs)) = training (nb_model nb)"
  "nb_steps (foldl (one_update backward step) nb bs) = nb_steps nb + length bs"
  by (induction bs arbitrary: nb) (simp_all add: one_update_facts)

lemma notebook_train_facts:
  "architecture (nb_model (notebook_train nb)) L D = architecture (nb_model nb) L D"
  "nb_grad_enabled (notebook_train nb) = nb_grad_enabled nb"
  "training (nb_model (notebook_train nb))"
  "nb_steps (notebook_train nb) = nb_steps nb"
  by (simp_all add: notebook_train_def)

lemma notebook_train_idem: "training (nb_model nb) \<Longrightarrow> notebook_train nb = nb"
  by (simp add: notebook_train_def)

lemma train_batch_step:
  assumes arch: "architecture (nb_model nb) L D" and fits: "batch_fits L b"
    and on: "nb_grad_enabled nb"
  shows "\<exists>l. train_batch backward step nb b = Inr (one_update backward step nb b, l)
            \<and> batch_mse (nb_model nb) b l"
proof -
  obtain X y where b: "b = (X, y)" by (cases b)
  obtain B T G where s: "shape X = [B, T, G, 3]" "shape y = [B, T, G, 2]"
      "length (data y) = B * T * G * 2" "T * G \<le> L"
    using fits b by (auto simp: batch_fits_def)
  obtain r where r: "select_last X 0 = Inr r" "shape r = [B, T, G]"
    using select_last_channel [OF s(1), of 0] by auto
  obtain i where i: "select_last X 1 = Inr i" "shape i = [B, T, G]"
    using select_last_channel [OF s(1), of 1] by auto
  obtain v where v: "select_last X 2 = Inr v" "shape v = [B, T, G]"
    using select_last_channel [OF s(1), of 2] by auto
  obtain out where out: "forward (nb_model nb) r i v = Inr out" "shape out = [B, T, G, 2]"
      "length (data out) = B * T * G * 2"
    using forward_shape_arch [OF arch r(2) i(2) v(2) s(4)] by blast
  define l where "l = (if data out = [] then NaN
            else Finite (sum_list (map2 (\<lambda>p t. (p - t)\<^sup>2) (data out) (data y))
                         / real (length (data out))))"
  have mse: "mse_loss out y = Inr l"
    unfolding l_def by (rule mse_loss_explicit) (simp_all add: out s)
  have call: "module_call (zero_grad nb) r i v = (Inr (out, True), zero_grad nb)"
    using out(1) on by (simp add: module_call_eq zero_grad_def)
  have bw: "loss_backward backward True (X, y) (zero_grad nb)
              = Inr (nb\<lparr>nb_grad := Some (backward (nb_model nb) (X, y) None)\<rparr>)"
    by (simp add: loss_backward_def zero_grad_def)
  have st: "optimizer_step step (nb\<lparr>nb_grad := Some (backward (nb_model nb) (X, y) None)\<rparr>)
              = one_update backward step nb (X, y)"
    by (simp add: optimizer_step_def one_update_def Let_def split: prod.splits)
  have run: "train_batch backward step nb b = Inr (one_update backward step nb b, l)"
    unfolding train_batch_def b by (simp add: r(1) i(1) v(1) call mse bw st del: One_nat_def)
  have "batch_mse (nb_model nb) b l"
    unfolding batch_mse_def b l_def using r(1) i(1) v(1) out(1,2) s(2) by auto
  then show ?thesis using run by blast
qed

lemma train_batches_run:
  assumes "architecture (nb_model nb) L D" and "nb_grad_enabled nb"
    and "\<forall>b \<in> set bs. batch_fits L b"
  shows "\<exists>ls. train_batches backward step nb tot losses bs
                 = Inr (foldl (one_update backward step) nb bs, foldl loss_add tot ls, losses @ ls)
            \<and> length ls = length bs
            \<and> (\<forall>k < length bs.
                  batch_mse (nb_model (foldl (one_update backward step) nb (take k bs)))
                    (bs ! k) (ls ! k))"
  using assms
proof (induction bs arbitrary: nb tot losses)
  case Nil
  then show ?case by simp
next
  case (Cons b bs)
  let ?nb1 = "one_update backward step nb b"
  have fb: "batch_fits L b" using Cons.prems(3) by simp
  obtain l where l: "train_batch backward step nb b = Inr (?nb1, l)"
      "batch_mse (nb_model nb) b l"
    using train_batch_step [OF Cons.prems(1) fb Cons.prems(2), of backward step] by blast
  have a1: "architecture (nb_model ?nb1) L D" using Cons.prems(1) by (simp add: one_update_facts)
  have g1: "nb_grad_enabled ?nb1" using Cons.prems(2) by (simp add: one_update_facts)
  have f1: "\<forall>b \<in> set bs. batch_fits L b" using Cons.prems(3) by simp
  obtain ls where r:
      "train_batches backward step ?nb1 (loss_add tot l) (losses @ [l]) bs
         = Inr (foldl (one_update backward step) ?nb1 bs,
                foldl loss_add (loss_add tot l) ls, (losses @ [l]) @ ls)"
      "length ls = length bs"
      "\<forall>k < length bs. batch_mse (nb_model (foldl (one_update backward step) ?nb1 (take k bs)))
                          (bs ! k) (ls ! k)"
    using Cons.IH [OF a1 g1 f1, of "loss_add tot l" "losses @ [l]"] by blast
  have run: "train_batches backward step nb tot losses (b # bs)
          = Inr (foldl (one_update backward step) nb (b # bs),
                 foldl loss_add tot (l # ls), losses @ (l # ls))"
    using l(1) r(1) by simp
  have each: "batch_mse (nb_model (foldl (one_update backward step) nb (take k (b # bs))))
                ((b # bs) ! k) ((l # ls) ! k)" if "k < length (b # bs)" for k
    using that l(2) r(3) by (cases k) simp_all
  have "length (l # ls) = length (b # bs)" using r(2) by simp
  then show ?case using run each by blast
qed

lemma foldl_loss_add:
  "foldl loss_add (Finite a) ls =
     (if NaN \<in> set ls then NaN else Finite (a + sum_list (map loss_real ls)))"
proof (induction ls arbitrary: a)
  case Nil
  then show ?case by simp
next
  case (Cons l ls)
  have nan: "foldl loss_add NaN xs = NaN" for xs by (induction xs) simp_all
  show ?case
  proof (cases l)
    case (Finite x)
    then show ?thesis using Cons.IH [of "a + x"] by (simp add: add.assoc)
  next
    case NaN
    then show ?thesis by (simp add: nan)
  qed
qed

lemma loss_div_mean:
  assumes "ls \<noteq> []"
  shows "loss_div (foldl loss_add (Finite 0) ls) (length ls) = Inr (mean_loss ls)"
proof -
  obtain n where n: "length ls = Suc n" using assms by (cases ls) simp_all
  show ?thesis unfolding foldl_loss_add mean_loss_def n by simp
qed

lemma train_epoch_run:
  assumes arch: "architecture (nb_model nb) L D" and on: "nb_grad_enabled nb"
    and ne: "bs \<noteq> []" and fits: "\<forall>b \<in> set bs. batch_fits L b"
  shows "\<exists>ls. train_epoch backward step nb bs
                 = Inr (foldl (one_update backward step) (notebook_train nb) bs, ls, mean_loss ls)
            \<and> length ls = length bs
            \<and> (\<forall>k < length bs.
                  batch_mse (nb_model (foldl (one_update backward step) (notebook_train nb)
                                         (take k bs)))
                    (bs ! k) (ls ! k))"
proof -
  have a1: "architecture (nb_model (notebook_train nb)) L D"
    using arch by (simp add: notebook_train_facts)
  have g1: "nb_grad_enabled (notebook_train nb)" using on by (simp add: notebook_train_facts)
  obtain ls where r:
      "train_batches backward step (notebook_train nb) (Finite 0) [] bs
         = Inr (foldl (one_update backward step) (notebook_train nb) bs,
                foldl loss_add (Finite 0) ls, [] @ ls)"
      "length ls = length bs"
      "\<forall>k < length bs. batch_mse (nb_model (foldl (one_update backward step) (notebook_train nb)
                                               (take k bs))) (bs ! k) (ls ! k)"
    using train_batches_run [OF a1 g1 fits, of backward step "Finite 0" "[]"] by blast
  have "ls \<noteq> []" using ne r(2) by auto
  then have m: "loss_div (foldl loss_add (Finite 0) ls) (length bs) = Inr (mean_loss ls)"
    using loss_div_mean [of ls] r(2) by simp
  have "train_epoch backward step nb bs
          = Inr (foldl (one_update backward step) (notebook_train nb) bs, ls, mean_loss ls)"
    using r(1) m by (simp add: train_epoch_def)
  then show ?thesis using r(2,3) by blast
qed


lemma train_epochs_run:
  assumes "architecture (nb_model nb) L D" and "nb_grad_enabled nb"
    and "training (nb_model nb)"
    and "\<forall>e \<in> set es. train_loader e \<noteq> [] \<and> (\<forall>b \<in> set (train_loader e). batch_fits L b)"
  shows "\<exists>hs. train_epochs backward step train_loader nb hist printed es
                 = Inr (foldl (one_update backward step) nb (concat (map train_loader es)),
                        hist @ hs, printed @ map mean_loss hs)
            \<and> length hs = length es
            \<and> (\<forall>i < length es. length (hs ! i) = length (train_loader (es ! i))
                  \<and> (\<forall>k < length (train_loader (es ! i)).
                        batch_mse
                          (nb_model (foldl (one_update backward step) nb
                                       (concat (map train_loader (take i es))
                                          @ take k (train_loader (es ! i)))))
                          (train_loader (es ! i) ! k) (hs ! i ! k)))"
  using assms
proof (induction es arbitrary: nb hist printed)
  case Nil
  then show ?case by simp
next
  case (Cons e es)
  let ?U = "one_update backward step"
  let ?nb1 = "foldl ?U nb (train_loader e)"
  have ne: "train_loader e \<noteq> []" and fits: "\<forall>b \<in> set (train_loader e). batch_fits L b"
    using Cons.prems(4) by simp_all
  have idem: "notebook_train nb = nb" using Cons.prems(3) by (rule notebook_train_idem)
  obtain ls where e1:
      "train_epoch backward step nb (train_loader e) = Inr (?nb1, ls, mean_loss ls)"
      "length ls = length (train_loader e)"
      "\<forall>k < length (train_loader e).
          batch_mse (nb_model (foldl ?U nb (take k (train_loader e)))) (train_loader e ! k) (ls ! k)"
    using train_epoch_run [OF Cons.prems(1,2) ne fits, of backward step] unfolding idem by blast
  have a1: "architecture (nb_model ?nb1) L D" using Cons.prems(1) by (simp add: updates_facts)
  have g1: "nb_grad_enabled ?nb1" using Cons.prems(2) by (simp add: updates_facts)
  have t1: "training (nb_model ?nb1)" using Cons.prems(3) by (simp add: updates_facts)
  have rest: "\<forall>e \<in> set es. train_loader e \<noteq> [] \<and> (\<forall>b \<in> set (train_loader e). batch_fits L b)"
    using Cons.prems(4) by simp
  obtain hs where r:
      "train_epochs backward step train_loader ?nb1 (hist @ [ls]) (printed @ [mean_loss ls]) es
         = Inr (foldl ?U ?nb1 (concat (map train_loader es)),
                (hist @ [ls]) @ hs, (printed @ [mean_loss ls]) @ map mean_loss hs)"
      "length hs = length es"
      "\<forall>i < length es. length (hs ! i) = length (train_loader (es ! i))
          \<and> (\<forall>k < length (train_loader (es ! i)).
                batch_mse (nb_model (foldl ?U ?nb1 (concat (map train_loader (take i es))
                                                     @ take k (train_loader (es ! i)))))
                  (train_loader (es ! i) ! k) (hs ! i ! k))"
    using Cons.IH [OF a1 g1 t1 rest, of "hist @ [ls]" "printed @ [mean_loss ls]"] by blast
  have run: "train_epochs backward step train_loader nb hist printed (e # es)
          = Inr (foldl ?U nb (concat (map train_loader (e # es))),
                 hist @ (ls # hs), printed @ map mean_loss (ls # hs))"
    using e1(1) r(1) by simp
  have each: "length ((ls # hs) ! i) = length (train_loader ((e # es) ! i))
          \<and> (\<forall>k < length (train_loader ((e # es) ! i)).
                batch_mse (nb_model (foldl ?U nb (concat (map train_loader (take i (e # es)))
                                                   @ take k (train_loader ((e # es) ! i)))))
                  (train_loader ((e # es) ! i) ! k) ((ls # hs) ! i ! k))"
    if "i < length (e # es)" for i
  proof (cases i)
    case 0
    then show ?thesis using e1(2,3) by simp
  next
    case (Suc j)
    then have "j < length es" using that by simp
    then show ?thesis using r(3) Suc by simp
  qed
  have "length (ls # hs) = length (e # es)" using r(2) by simp
  then show ?case using run each by blast
qed

lemma train_epoch_mode:
  "train_epoch backward step (notebook_train nb) bs = train_epoch backward step nb bs"
  by (simp add: train_epoch_def notebook_train_def)

lemma train_epochs_mode:
  "es \<noteq> [] \<Longrightarrow>
   train_epochs backward step train_loader (notebook_train nb) hist printed es
     = train_epochs backward step train_loader nb hist printed es"
  by (cases es) (simp_all add: train_epoch_mode)

lemma length_concat_loader:
  "length (concat (map train_loader [0..<E])) = (\<Sum>e < E. length (train_loader e))"
  by (simp add: length_concat comp_def interv_sum_list_conv_sum_set_nat atLeast0LessThan)

lemma train_empty_loader:
  assumes "0 < E" and "train_loader 0 = []"
  shows "train backward step nb train_loader E = Inl ZeroDivision"
  using assms by (simp add: train_def upt_pos train_epoch_def)

subsection \<open>The concrete encoder layer\<close>

lemma normalise_minus: "normalise (- w) = - normalise w"
  by (simp add: normalise_def)

lemma layer_norm_pair:
  "layer_norm [1, 1] [0, 0] (1 / 100000) [u, v]
     = [normalise ((u - v) / 2), - normalise ((u - v) / 2)]"
proof -
  have mu: "u - (u + v) / 2 = (u - v) / 2" "v - (u + v) / 2 = - ((u - v) / 2)"
    by (simp_all add: field_simps)
  have var: "(((u - v) / 2)\<^sup>2 + (- ((u - v) / 2))\<^sup>2) / 2 = ((u - v) / 2)\<^sup>2"
    by simp
  have "layer_norm [1, 1] [0, 0] (1 / 100000) [u, v]
          = [((u - v) / 2) / sqrt (((u - v) / 2)\<^sup>2 + 1 / 100000),
             (- ((u - v) / 2)) / sqrt (((u - v) / 2)\<^sup>2 + 1 / 100000)]"
    unfolding layer_norm_def Let_def
    by (simp add: mu var del: One_nat_def)
  then show ?thesis
    by (simp add: normalise_def)
qed

lemma self_attention_pair:
  "self_attention example_attention [[a, b], [c, d]]
     = [[(a + c) / 2, (b + d) / 2], [(a + c) / 2, (b + d) / 2]]"
  by (simp add: self_attention_def example_attention_def attention_head_def softmax_def
      affine_def dot_def upt_rec Let_def field_simps)

lemma self_attention_single:
  "self_attention example_attention [[a, b]] = [[a, b]]"
  by (simp add: self_attention_def example_attention_def attention_head_def softmax_def
      affine_def dot_def upt_rec Let_def)


lemma feed_forward_zero:
  "affine (linear2 example_layer) (map (max 0) (affine (linear1 example_layer) [p, q])) = [0, 0]"
  by (simp add: example_layer_def affine_def dot_def upt_rec)

lemma encoder_layer_pair:
  "encoder_layer_forward example_layer [[a, b], [c, d]]
     = [[normalise (normalise ((a + (a + c) / 2 - (b + (b + d) / 2)) / 2)),
         - normalise (normalise ((a + (a + c) / 2 - (b + (b + d) / 2)) / 2))],
        [normalise (normalise ((c + (a + c) / 2 - (d + (b + d) / 2)) / 2)),
         - normalise (normalise ((c + (a + c) / 2 - (d + (b + d) / 2)) / 2))]]"
proof -
  have n: "norm1_weight example_layer = [1, 1]" "norm1_bias example_layer = [0, 0]"
    "norm2_weight example_layer = [1, 1]" "norm2_bias example_layer = [0, 0]"
    "layer_norm_eps example_layer = 1 / 100000" "self_attn example_layer = example_attention"
    by (simp_all add: example_layer_def)
  have twice: "layer_norm [1, 1] [0, 0] (1 / 100000) [w, - w] = [normalise w, - normalise w]" for w
    using layer_norm_pair [of w "- w"] by simp
  show ?thesis
    unfolding encoder_layer_forward_def Let_def n self_attention_pair
    by (simp add: layer_norm_pair feed_forward_zero twice)
qed

lemma encoder_layer_single:
  "encoder_layer_forward example_layer [[a, b]]
     = [[normalise (normalise (a - b)), - normalise (normalise (a - b))]]"
proof -
  have n: "norm1_weight example_layer = [1, 1]" "norm1_bias example_layer = [0, 0]"
    "norm2_weight example_layer = [1, 1]" "norm2_bias example_layer = [0, 0]"
    "layer_norm_eps example_layer = 1 / 100000" "self_attn example_layer = example_attention"
    by (simp_all add: example_layer_def)
  have twice: "layer_norm [1, 1] [0, 0] (1 / 100000) [w, - w] = [normalise w, - normalise w]" for w
    using layer_norm_pair [of w "- w"] by simp
  have h: "(2 * a - 2 * b) / 2 = a - b" by argo
  have first: "layer_norm [1, 1] [0, 0] (1 / 100000) [2 * a, 2 * b]
                 = [normalise (a - b), - normalise (a - b)]"
    by (simp only: layer_norm_pair h)
  show ?thesis
    unfolding encoder_layer_forward_def Let_def n self_attention_single
    by (simp add: first feed_forward_zero twice)
qed

lemma normalise_zero_iff: "normalise w = 0 \<longleftrightarrow> w = 0"
proof -
  have "0 < w\<^sup>2 + 1 / 100000" by (simp add: add_nonneg_pos)
  then have "sqrt (w\<^sup>2 + 1 / 100000) \<noteq> 0" by simp
  then show ?thesis by (simp add: normalise_def)
qed

lemma normalise_square: "(normalise w)\<^sup>2 = w\<^sup>2 / (w\<^sup>2 + 1 / 100000)"
proof -
  have "0 \<le> w\<^sup>2 + 1 / 100000" by simp
  then show ?thesis by (simp add: normalise_def power_divide)
qed

lemma normalise_inj:
  assumes "normalise a = normalise b"
  shows "a = b"
proof -
  have pa: "0 < a\<^sup>2 + 1 / 100000" and pb: "0 < b\<^sup>2 + 1 / 100000"
    by (simp_all add: add_nonneg_pos)
  have "a\<^sup>2 / (a\<^sup>2 + 1 / 100000) = b\<^sup>2 / (b\<^sup>2 + 1 / 100000)"
    using assms normalise_square [of a] normalise_square [of b] by simp
  then have "a\<^sup>2 * (b\<^sup>2 + 1 / 100000) = b\<^sup>2 * (a\<^sup>2 + 1 / 100000)"
    using pa pb by (simp add: frac_eq_eq)
  then have "a\<^sup>2 = b\<^sup>2" by (simp add: algebra_simps)
  then consider "a = b" | "a = - b" by (auto simp: power2_eq_iff)
  then show ?thesis
  proof cases
    case 1
    then show ?thesis .
  next
    case 2
    then have "normalise b = - normalise b"
      using assms normalise_minus [of b] by simp
    then have "normalise b = 0" by simp
    then have "b = 0" by (simp add: normalise_zero_iff)
    then show ?thesis using 2 by simp
  qed
qed

subsection \<open>Evaluation on small inputs\<close>

lemmas eval_ops =
  stack3_last_def view_def linear_apply_def affine_def dot_def size_at_def
  add_tensors_def broadcast_shapes_def expand_to_def get_def encoder_apply_def
  transformer_encoder_forward_def encoder_layer_pair encoder_layer_single
  select_last_def rows_numeral upt_rec Let_def

lemma pe_table_22: "pe_table 2 2 = \<lparr>shape = [1, 2, 2], data = [0, 1, sin 1, cos 1]\<rparr>"
  unfolding pe_table_def by (simp add: pe_entry_def div_term_def upt_rec)

lemma forward_batch_1_5:
  "forward example_model \<lparr>shape = [2, 1, 1], data = [1, 5]\<rparr>
     \<lparr>shape = [2, 1, 1], data = [0, 0]\<rparr> \<lparr>shape = [2, 1, 1], data = [0, 0]\<rparr>
   = Inr \<lparr>shape = [2, 1, 1, 2],
          data = [normalise (normalise 1), - normalise (normalise 1),
                  normalise (normalise 3), - normalise (normalise 3)]\<rparr>"
  by (simp add: forward_def example_model_def eval_ops slice1_pe_table_eq pe_table_row0)

lemma forward_batch_1_m3:
  "forward example_model \<lparr>shape = [2, 1, 1], data = [1, - 3]\<rparr>
     \<lparr>shape = [2, 1, 1], data = [0, 0]\<rparr> \<lparr>shape = [2, 1, 1], data = [0, 0]\<rparr>
   = Inr \<lparr>shape = [2, 1, 1, 2],
          data = [- normalise (normalise 1), normalise (normalise 1),
                  - normalise (normalise 3), normalise (normalise 3)]\<rparr>"
  by (simp add: forward_def example_model_def eval_ops slice1_pe_table_eq pe_table_row0
      normalise_minus)

lemma forward2_batch_1_5:
  "forward2 example_model2 \<lparr>shape = [2, 1, 1], data = [1, 5]\<rparr>
     \<lparr>shape = [2, 1, 1], data = [0, 0]\<rparr> \<lparr>shape = [2, 1, 1], data = [0, 0]\<rparr>
   = Inr (\<lparr>shape = [2, 1, 1], data = [normalise (normalise 0), normalise (normalise 4)]\<rparr>,
          \<lparr>shape = [2, 1, 1], data = [- normalise (normalise 0), - normalise (normalise 4)]\<rparr>)"
  by (simp add: forward2_def PositionalEncoding_forward_def example_model2_def eval_ops
      slice1_pe_table_eq pe_table_row0)

lemma forward_tokens_1_5:
  "\<exists>x y. forward example_model \<lparr>shape = [1, 1, 2], data = [1, 5]\<rparr>
     \<lparr>shape = [1, 1, 2], data = [0, 0]\<rparr> \<lparr>shape = [1, 1, 2], data = [0, 0]\<rparr>
   = Inr \<lparr>shape = [1, 1, 2, 2],
          data = [normalise (normalise 0), - normalise (normalise 0), x, y]\<rparr>"
  by (simp add: forward_def example_model_def eval_ops pe_table_22 slice1_def)

lemma forward_tokens_1_7:
  "\<exists>x y. forward example_model \<lparr>shape = [1, 1, 2], data = [1, 7]\<rparr>
     \<lparr>shape = [1, 1, 2], data = [0, 0]\<rparr> \<lparr>shape = [1, 1, 2], data = [0, 0]\<rparr>
   = Inr \<lparr>shape = [1, 1, 2, 2],
          data = [normalise (normalise 0), - normalise (normalise 0), x, y]\<rparr>"
  by (simp add: forward_def example_model_def eval_ops pe_table_22 slice1_def)


lemma normalise_twice_neq: "a \<noteq> b \<Longrightarrow> normalise (normalise a) \<noteq> normalise (normalise b)"
  using normalise_inj by blast

section \<open>Flattening and unflattening the token axis\<close>

text \<open>
  Claim C6. The forward pass flattens the time and grid axes with
  \<^verbatim>\<open>x.view(batch_size, seq_length * n_grid, 3)\<close> and restores them with
  \<^verbatim>\<open>x.view(batch_size, seq_length, n_grid, 2)\<close>. For a field of shape
  (batch, time, grid, channels), flattening succeeds and gives shape
  (batch, time * grid, channels); token \<open>t * grid + g\<close> of the flattened field is grid
  point \<open>g\<close> at time \<open>t\<close> of the original; and unflattening the result with the same
  time and grid sizes succeeds and returns the original field, shape and data.
\<close>

theorem flatten_unflatten_roundtrip:
  assumes "shape x = [B, T, G, C]"
  shows "\<exists>f. view x [B, T * G, C] = Inr f
           \<and> shape f = [B, T * G, C]
           \<and> data f = data x
           \<and> (\<forall>b t g c. g < G \<longrightarrow> get f [b, t * G + g, c] = get x [b, t, g, c])
           \<and> view f [B, T, G, C] = Inr x"
proof -
  let ?f = "x\<lparr>shape := [B, T * G, C]\<rparr>"
  have v: "view x [B, T * G, C] = Inr ?f"
    using assms by (simp add: view_def)
  have idx: "get ?f [b, t * G + g, c] = get x [b, t, g, c]" for b t g c
    using assms by (simp add: get_def algebra_simps)
  have unflat: "view ?f [B, T, G, C] = Inr x"
    using assms by (simp add: view_def)
  show ?thesis
    using v idx unflat by simp
qed

theorem flatten_unflatten_roundtrip_witness:
  "\<exists>f. view \<lparr>shape = [1, 2, 2, 1], data = [10, 20, 30, 40 :: int]\<rparr> [1, 2 * 2, 1] = Inr f
       \<and> get f [0, 1 * 2 + 0, 0] = 30
       \<and> view f [1, 2, 2, 1] = Inr \<lparr>shape = [1, 2, 2, 1], data = [10, 20, 30, 40 :: int]\<rparr>"
proof -
  let ?x = "\<lparr>shape = [1, 2, 2, 1], data = [10, 20, 30, 40 :: int]\<rparr>"
  have s: "shape ?x = [1, 2, 2, 1]" by simp
  obtain f where f: "view ?x [1, 2 * 2, 1] = Inr f"
      "\<forall>b t g c. g < 2 \<longrightarrow> get f [b, t * 2 + g, c] = get ?x [b, t, g, c]"
      "view f [1, 2, 2, 1] = Inr ?x"
    using flatten_unflatten_roundtrip [OF s] by blast
  have "get f [0, 1 * 2 + 0, 0] = get ?x [0, 1, 0, 0]"
    using f(2) by (metis pos2)
  also have "\<dots> = 30" by (simp add: get_def)
  finally show ?thesis using f(1,3) by blast
qed

section \<open>The dataset's length and item shapes\<close>

text \<open>
  Claim C10. When the store file holds \<^verbatim>\<open>dataset_X\<close> of shape
  (num_trajectories, sequence_length, 3 * G) and \<^verbatim>\<open>dataset_y\<close> of shape
  (num_trajectories, sequence_length, 2 * G), constructing the dataset succeeds, its grid
  size is the integer quotient of the last-axis width of \<^verbatim>\<open>dataset_X\<close> by 3 (which is
  G), its length is num_trajectories, and every item at a valid Python index (from
  \<open>- num_trajectories\<close> up to \<open>num_trajectories - 1\<close>) is a pair of tensors of shapes
  (sequence_length, G, 3) and (sequence_length, G, 2).
\<close>

theorem dataset_len_and_item_shapes:
  assumes "f ''dataset_X'' = Some X0" and "f ''dataset_y'' = Some y0"
    and "shape X0 = [num, seq, 3 * G]" and "shape y0 = [num, seq, 2 * G]"
  shows "\<exists>ds. QuantumWaveDataset_init f = Inr ds
            \<and> ds_n_grid ds = (3 * G) div 3 \<and> ds_n_grid ds = G
            \<and> dataset_len ds = num
            \<and> (\<forall>idx. - int num \<le> idx \<and> idx < int num \<longrightarrow>
                 (\<exists>a b. dataset_getitem ds idx = Inr (a, b)
                        \<and> shape a = [seq, G, 3] \<and> shape b = [seq, G, 2]))"
proof -
  let ?ds = "\<lparr>ds_X = X0\<lparr>shape := [num, seq, G, 3]\<rparr>,
              ds_y = y0\<lparr>shape := [num, seq, G, 2]\<rparr>,
              ds_num_trajectories = num, ds_sequence_length = seq, ds_n_grid = G\<rparr>"
  have vx: "view X0 [num, seq, G, 3] = Inr (X0\<lparr>shape := [num, seq, G, 3]\<rparr>)"
    using assms(3) by (simp add: view_def mult.commute)
  have vy: "view y0 [num, seq, G, 2] = Inr (y0\<lparr>shape := [num, seq, G, 2]\<rparr>)"
    using assms(4) by (simp add: view_def mult.commute)
  have init: "QuantumWaveDataset_init f = Inr ?ds"
    using assms(1,2,3) vx vy
    by (simp add: QuantumWaveDataset_init_def read_array_def)
  have item: "\<exists>a b. dataset_getitem ?ds idx = Inr (a, b)
                 \<and> shape a = [seq, G, 3] \<and> shape b = [seq, G, 2]"
    if lo: "- int num \<le> idx" and hi: "idx < int num" for idx
  proof -
    have sx: "shape (ds_X ?ds) = num # [seq, G, 3]"
      and sy: "shape (ds_y ?ds) = num # [seq, G, 2]"
      by simp_all
    obtain a where a: "select0 (ds_X ?ds) idx = Inr a" "shape a = [seq, G, 3]"
      using select0_shape [OF sx lo hi] by blast
    obtain b where b: "select0 (ds_y ?ds) idx = Inr b" "shape b = [seq, G, 2]"
      using select0_shape [OF sy lo hi] by blast
    show ?thesis
      using a b by (simp add: dataset_getitem_def)
  qed
  show ?thesis
    using init item by (simp add: dataset_len_def)
qed

theorem dataset_len_and_item_shapes_witness:
  "\<exists>ds. QuantumWaveDataset_init
          [''dataset_X'' \<mapsto> \<lparr>shape = [1, 1, 3 * 1], data = [1, 2, 3 :: int]\<rparr>,
           ''dataset_y'' \<mapsto> \<lparr>shape = [1, 1, 2 * 1], data = [4, 5]\<rparr>] = Inr ds
        \<and> dataset_len ds = 1
        \<and> (\<exists>a b. dataset_getitem ds (- 1) = Inr (a, b)
               \<and> shape a = [1, 1, 3] \<and> shape b = [1, 1, 2])"
proof -
  let ?X0 = "\<lparr>shape = [1, 1, 3 * 1], data = [1, 2, 3 :: int]\<rparr>"
  let ?y0 = "\<lparr>shape = [1, 1, 2 * 1], data = [4, 5 :: int]\<rparr>"
  let ?f = "[''dataset_X'' \<mapsto> ?X0, ''dataset_y'' \<mapsto> ?y0]"
  have h: "?f ''dataset_X'' = Some ?X0" "?f ''dataset_y'' = Some ?y0"
    "shape ?X0 = [1, 1, 3 * 1]" "shape ?y0 = [1, 1, 2 * 1]"
    by simp_all
  obtain ds where ds: "QuantumWaveDataset_init ?f = Inr ds" "dataset_len ds = 1"
    "\<forall>idx. - int 1 \<le> idx \<and> idx < int 1 \<longrightarrow>
       (\<exists>a b. dataset_getitem ds idx = Inr (a, b)
              \<and> shape a = [1, 1, 3] \<and> shape b = [1, 1, 2])"
    using dataset_len_and_item_shapes [OF h] by blast
  have "\<exists>a b. dataset_getitem ds (- 1) = Inr (a, b)
              \<and> shape a = [1, 1, 3] \<and> shape b = [1, 1, 2]"
    using ds(3) by simp
  then show ?thesis using ds(1,2) by blast
qed

section \<open>The output shape of the forward pass\<close>

text \<open>
  Claim C1. Let a model of the first class be constructed with width \<open>d_model\<close> and a
  positional table of \<open>seq_length * n_grid\<close> rows, with any weights, and let it be in
  either mode. For three input fields of the same shape (batch, time, grid) whose token
  count time * grid is at most the length of the table, the forward pass succeeds and
  returns a tensor of shape (batch, time, grid, 2), with as many elements as that shape
  has; its last axis holds the two outputs of the output layer, the predicted real and
  imaginary parts.
\<close>

theorem forward_output_shape:
  assumes "QuantumTransformer_init w d_model seq_length n_grid = Inr m"
    and "shape psi_real = [B, T, G]" and "shape psi_imag = [B, T, G]"
    and "shape potential = [B, T, G]"
    and "T * G \<le> seq_length * n_grid"
  shows "\<exists>out. forward (m\<lparr>training := mode\<rparr>) psi_real psi_imag potential = Inr out
            \<and> shape out = [B, T, G, 2] \<and> length (data out) = B * T * G * 2"
proof -
  have "architecture (m\<lparr>training := mode\<rparr>) (seq_length * n_grid) d_model"
    using init_architecture [OF assms(1)] by simp
  then show ?thesis
    using assms(2-5) by (rule forward_shape_arch)
qed

theorem forward_output_shape_witness:
  "\<exists>out. forward (example_model\<lparr>training := False\<rparr>)
            \<lparr>shape = [2, 1, 1], data = [1, 5]\<rparr> \<lparr>shape = [2, 1, 1], data = [0, 0]\<rparr>
            \<lparr>shape = [2, 1, 1], data = [0, 0]\<rparr> = Inr out
         \<and> shape out = [2, 1, 1, 2] \<and> length (data out) = 2 * 1 * 1 * 2"
proof -
  let ?a = "\<lparr>shape = [2, 1, 1], data = [1, 5 :: real]\<rparr>"
  let ?b = "\<lparr>shape = [2, 1, 1], data = [0, 0 :: real]\<rparr>"
  have s: "shape ?a = [2, 1, 1]" "shape ?b = [2, 1, 1]" by simp_all
  have le: "1 * 1 \<le> (1::nat) * 2" by simp
  show ?thesis
    using forward_output_shape [OF example_model_init s(1) s(2) s(2) le, of False] by simp
qed

section \<open>The positional-encoding table\<close>

text \<open>
  Claim C5. When \<^verbatim>\<open>create_positional_encoding\<close> returns a table for length \<open>L\<close>
  and width \<open>D\<close>, the table has shape (1, L, D), and for every position \<open>p < L\<close> its
  entry at an even index \<open>2i\<close> is \<open>sin (p / 10000 powr (2i / D))\<close> and its entry at an
  odd index \<open>2i + 1\<close> is \<open>cos (p / 10000 powr (2i / D))\<close>; the row at position 0 is
  0 at the even and 1 at the odd indices. (Over the real numbers: \<^verbatim>\<open>div_term\<close> is
  computed as \<open>exp (2i * (- ln 10000 / D))\<close>.)
\<close>

theorem positional_encoding_entries:
  assumes "create_positional_encoding L D = Inr pe" and "p < L"
  shows "shape pe = [1, L, D]
       \<and> (2 * i < D \<longrightarrow>
            get pe [0, p, 2 * i] = sin (real p / 10000 powr (real (2 * i) / real D)))
       \<and> (2 * i + 1 < D \<longrightarrow>
            get pe [0, p, 2 * i + 1] = cos (real p / 10000 powr (real (2 * i) / real D)))
       \<and> (\<forall>j < D. get pe [0, 0, j] = (if even j then 0 else 1))"
proof -
  have pe: "pe = pe_table L D" and D: "0 < D"
    using create_positional_encoding_Inr [OF assms(1)] by simp_all
  have L: "0 < L" using assms(2) by simp
  have a: "get pe [0, p, 2 * i] = sin (real p / 10000 powr (real (2 * i) / real D))"
    if "2 * i < D"
    using that assms(2) pe div_term_powr [OF D, of p i]
    by (simp add: pe_table_get pe_entry_def)
  have b: "get pe [0, p, 2 * i + 1] = cos (real p / 10000 powr (real (2 * i) / real D))"
    if "2 * i + 1 < D"
    using that assms(2) pe div_term_powr [OF D, of p i]
    by (simp add: pe_table_get pe_entry_def)
  have c: "get pe [0, 0, j] = (if even j then 0 else 1)" if "j < D" for j
    using that L pe by (simp add: pe_table_get pe_entry_def)
  show ?thesis using a b c pe by (simp add: pe_table_def)
qed

theorem positional_encoding_entries_witness:
  "\<exists>pe. create_positional_encoding 2 2 = Inr pe
       \<and> get pe [0, 1, 2 * 0] = sin (real 1 / 10000 powr (real (2 * 0) / real 2))
       \<and> get pe [0, 1, 2 * 0 + 1] = cos (real 1 / 10000 powr (real (2 * 0) / real 2))
       \<and> get pe [0, 0, 0] = 0 \<and> get pe [0, 0, 1] = 1"
proof -
  have c: "create_positional_encoding 2 2 = Inr (pe_table 2 2)"
    by (simp add: create_positional_encoding_def)
  have p: "(1::nat) < 2" by simp
  show ?thesis
    using positional_encoding_entries [OF c p, of 0] c by simp
qed

section \<open>The propagator on the documented shapes\<close>

text \<open>
  Claim C2. The docstring of \<^verbatim>\<open>propagate_wavefunction\<close> gives the initial fields
  the shape (1, n_grid) and the potential the shape (N, n_grid). Evaluated there for one
  step, the propagator returns no predicted field: with a model of the first class the
  forward pass stacks the three fields to rank 3 and fails to unpack four sizes, with a
  model of the second class the forward pass fails to unpack three sizes from the rank-2
  shape of \<^verbatim>\<open>psi_real\<close>. (Lemma \<open>propagate_documented_shapes\<close> shows this for every
  model, grid size and positive step count, lemma \<open>propagate_first_class_raises\<close> that
  with the first class no input at all lets a positive number of steps succeed, lemma
  \<open>propagate_zero\<close> that zero steps return the empty list, and lemma
  \<open>propagate_returns_N\<close> that a run which does return, returns \<open>N\<close> pairs, each the
  model's result for its predecessor and the potential of its step.)
\<close>

theorem propagate_documented_shapes_raises:
  "fst (propagate_wavefunction model_eval model_call example_model
          \<lparr>shape = [1, 2], data = [1, 0]\<rparr> \<lparr>shape = [1, 2], data = [0, 0]\<rparr>
          \<lparr>shape = [1, 2], data = [0, 0]\<rparr> 1) = Inl UnpackMismatch
   \<and> fst (propagate_wavefunction model_eval2 model_call2 example_model2
          \<lparr>shape = [1, 2], data = [1, 0]\<rparr> \<lparr>shape = [1, 2], data = [0, 0]\<rparr>
          \<lparr>shape = [1, 2], data = [0, 0]\<rparr> 1) = Inl UnpackMismatch"
proof -
  let ?a = "\<lparr>shape = [1, 2], data = [1, 0 :: real]\<rparr>"
  let ?b = "\<lparr>shape = [1, 2], data = [0, 0 :: real]\<rparr>"
  have n: "0 < (1::nat)" by simp
  have s: "shape ?a = [1, 2]" "shape ?b = [1, 2]" by simp_all
  show ?thesis
    using propagate_documented_shapes [OF n s(1) s(2) s(2) n]
    by simp
qed

section \<open>The propagator validates no shapes\<close>

text \<open>
  Claim C3, as stated, fails: with a potential schedule whose grid size (3) differs from
  that of the initial fields (2), zero steps return the empty list and no error; and for
  one step the error is the size mismatch of \<^verbatim>\<open>torch.stack\<close> inside the model's
  forward pass, on the tensor that the propagator passed to the model.
\<close>

theorem propagate_no_validation_counterexample:
  "propagate_wavefunction model_eval model_call example_model
      \<lparr>shape = [1, 2], data = [1, 0]\<rparr> \<lparr>shape = [1, 2], data = [0, 0]\<rparr>
      \<lparr>shape = [1, 3], data = [0, 0, 0]\<rparr> 0 = (Inr [], model_eval example_model)
   \<and> select0 \<lparr>shape = [1, 3], data = [0, 0, 0 :: real]\<rparr> 0 = Inr \<lparr>shape = [3], data = [0, 0, 0]\<rparr>
   \<and> forward (model_eval example_model)
        \<lparr>shape = [1, 2], data = [1, 0]\<rparr> \<lparr>shape = [1, 2], data = [0, 0]\<rparr>
        (unsqueeze0 \<lparr>shape = [3], data = [0, 0, 0]\<rparr>) = Inl StackSizeMismatch"
  by (simp add: propagate_zero select0_def forward_stack_mismatch unsqueeze0_def)

text \<open>
  Claim C3, amended. Let the initial fields have shape (1, G) and the potential schedule
  shape (M, G') with \<open>M > 0\<close> and \<open>G' \<noteq> G\<close>. For every positive step count the
  propagator returns no sequence but the size-mismatch error that \<^verbatim>\<open>torch.stack\<close>
  raises in the first forward pass of the model (first class), on the first time slice of
  the schedule; nothing is truncated or broadcast. The propagator itself checks nothing:
  for zero steps it returns the empty sequence.
\<close>

theorem propagate_grid_mismatch_raises:
  assumes "shape re = [1, G]" and "shape im = [1, G]"
    and "shape potential = [M, G']" and "0 < M" and "G' \<noteq> G"
  shows "(0 < N \<longrightarrow>
           (\<exists>v. select0 potential 0 = Inr v
               \<and> forward (model_eval m) re im (unsqueeze0 v) = Inl StackSizeMismatch
               \<and> propagate_wavefunction model_eval model_call m re im potential N
                    = (Inl StackSizeMismatch, model_eval m)))
       \<and> propagate_wavefunction model_eval model_call m re im potential 0
            = (Inr [], model_eval m)"
proof -
  have a: "\<exists>v. select0 potential 0 = Inr v
               \<and> forward (model_eval m) re im (unsqueeze0 v) = Inl StackSizeMismatch
               \<and> propagate_wavefunction model_eval model_call m re im potential N
                    = (Inl StackSizeMismatch, model_eval m)" if "0 < N"
    using that assms by (rule propagate_grid_mismatch)
  have b: "propagate_wavefunction model_eval model_call m re im potential 0
          = (Inr [], model_eval m)"
    by (rule propagate_zero)
  show ?thesis using a b by blast
qed

theorem propagate_grid_mismatch_raises_witness:
  "propagate_wavefunction model_eval model_call example_model
      \<lparr>shape = [1, 2], data = [1, 0]\<rparr> \<lparr>shape = [1, 2], data = [0, 0]\<rparr>
      \<lparr>shape = [2, 3], data = [0, 0, 0, 0, 0, 0]\<rparr> 2
     = (Inl StackSizeMismatch, model_eval example_model)"
proof -
  let ?a = "\<lparr>shape = [1, 2], data = [1, 0 :: real]\<rparr>"
  let ?b = "\<lparr>shape = [1, 2], data = [0, 0 :: real]\<rparr>"
  let ?p = "\<lparr>shape = [2, 3], data = [0, 0, 0, 0, 0, 0 :: real]\<rparr>"
  have h: "shape ?a = [1, 2]" "shape ?b = [1, 2]" "shape ?p = [2, 3]" "0 < (2::nat)"
    "(3::nat) \<noteq> 2" by simp_all
  show ?thesis
    using propagate_grid_mismatch_raises [OF h, of 2 example_model] by auto
qed

section \<open>Which tokens the attention stack lets interact\<close>

text \<open>
  Claim C4. The encoder layer of the first class is created without
  \<^verbatim>\<open>batch_first=True\<close>, while the forward pass hands it a tensor of shape
  (batch, tokens, d_model). The library therefore runs attention along the batch axis.
  Evaluated on the concrete model: two batches that agree on batch element 0 and differ
  in batch element 1 give outputs at batch element 0 of opposite sign (about (1, -1) and
  (-1, 1); \<open>normalise (normalise 1)\<close> is 1 up to \<open>1e-5\<close>); and in a batch of one
  element with two tokens, changing the input of token 1 leaves the output of token 0 as
  it was, although the attention of this model weighs all positions of a sequence
  equally.
\<close>

theorem first_class_mixes_batch_elements:
  "select0 \<lparr>shape = [2, 1, 1], data = [1, 5 :: real]\<rparr> 0
     = select0 \<lparr>shape = [2, 1, 1], data = [1, - 3]\<rparr> 0
   \<and> (\<exists>out out'.
         forward example_model \<lparr>shape = [2, 1, 1], data = [1, 5]\<rparr>
           \<lparr>shape = [2, 1, 1], data = [0, 0]\<rparr> \<lparr>shape = [2, 1, 1], data = [0, 0]\<rparr> = Inr out
       \<and> forward example_model \<lparr>shape = [2, 1, 1], data = [1, - 3]\<rparr>
           \<lparr>shape = [2, 1, 1], data = [0, 0]\<rparr> \<lparr>shape = [2, 1, 1], data = [0, 0]\<rparr> = Inr out'
       \<and> select0 out 0 = Inr \<lparr>shape = [1, 1, 2],
                                  data = [normalise (normalise 1), - normalise (normalise 1)]\<rparr>
       \<and> select0 out' 0 = Inr \<lparr>shape = [1, 1, 2],
                                   data = [- normalise (normalise 1), normalise (normalise 1)]\<rparr>
       \<and> select0 out 0 \<noteq> select0 out' 0)
   \<and> (\<exists>out out'.
         forward example_model \<lparr>shape = [1, 1, 2], data = [1, 5]\<rparr>
           \<lparr>shape = [1, 1, 2], data = [0, 0]\<rparr> \<lparr>shape = [1, 1, 2], data = [0, 0]\<rparr> = Inr out
       \<and> forward example_model \<lparr>shape = [1, 1, 2], data = [1, 7]\<rparr>
           \<lparr>shape = [1, 1, 2], data = [0, 0]\<rparr> \<lparr>shape = [1, 1, 2], data = [0, 0]\<rparr> = Inr out'
       \<and> get out [0, 0, 0, 0] = get out' [0, 0, 0, 0]
       \<and> get out [0, 0, 0, 1] = get out' [0, 0, 0, 1])"
proof -
  have a: "select0 \<lparr>shape = [2, 1, 1], data = [1, 5 :: real]\<rparr> 0
             = select0 \<lparr>shape = [2, 1, 1], data = [1, - 3]\<rparr> 0"
    by (simp add: select0_def)
  let ?o = "\<lparr>shape = [2, 1, 1, 2],
          data = [normalise (normalise 1), - normalise (normalise 1),
                  normalise (normalise 3), - normalise (normalise 3)]\<rparr>"
  let ?o' = "\<lparr>shape = [2, 1, 1, 2],
          data = [- normalise (normalise 1), normalise (normalise 1),
                  - normalise (normalise 3), normalise (normalise 3)]\<rparr>"
  have s: "select0 ?o 0 = Inr \<lparr>shape = [1, 1, 2],
                                  data = [normalise (normalise 1), - normalise (normalise 1)]\<rparr>"
    "select0 ?o' 0 = Inr \<lparr>shape = [1, 1, 2],
                                   data = [- normalise (normalise 1), normalise (normalise 1)]\<rparr>"
    by (simp_all add: select0_def)
  have "normalise (normalise 1) \<noteq> 0"
    by (simp add: normalise_zero_iff)
  then have d: "select0 ?o 0 \<noteq> select0 ?o' 0"
    unfolding s by simp
  have b: "\<exists>out out'.
         forward example_model \<lparr>shape = [2, 1, 1], data = [1, 5]\<rparr>
           \<lparr>shape = [2, 1, 1], data = [0, 0]\<rparr> \<lparr>shape = [2, 1, 1], data = [0, 0]\<rparr> = Inr out
       \<and> forward example_model \<lparr>shape = [2, 1, 1], data = [1, - 3]\<rparr>
           \<lparr>shape = [2, 1, 1], data = [0, 0]\<rparr> \<lparr>shape = [2, 1, 1], data = [0, 0]\<rparr> = Inr out'
       \<and> select0 out 0 = Inr \<lparr>shape = [1, 1, 2],
                                  data = [normalise (normalise 1), - normalise (normalise 1)]\<rparr>
       \<and> select0 out' 0 = Inr \<lparr>shape = [1, 1, 2],
                                   data = [- normalise (normalise 1), normalise (normalise 1)]\<rparr>
       \<and> select0 out 0 \<noteq> select0 out' 0"
    using forward_batch_1_5 forward_batch_1_m3 s d by blast
  obtain x y where t: "forward example_model \<lparr>shape = [1, 1, 2], data = [1, 5]\<rparr>
     \<lparr>shape = [1, 1, 2], data = [0, 0]\<rparr> \<lparr>shape = [1, 1, 2], data = [0, 0]\<rparr>
   = Inr \<lparr>shape = [1, 1, 2, 2],
          data = [normalise (normalise 0), - normalise (normalise 0), x, y]\<rparr>"
    using forward_tokens_1_5 by blast
  obtain x' y' where t': "forward example_model \<lparr>shape = [1, 1, 2], data = [1, 7]\<rparr>
     \<lparr>shape = [1, 1, 2], data = [0, 0]\<rparr> \<lparr>shape = [1, 1, 2], data = [0, 0]\<rparr>
   = Inr \<lparr>shape = [1, 1, 2, 2],
          data = [normalise (normalise 0), - normalise (normalise 0), x', y']\<rparr>"
    using forward_tokens_1_7 by blast
  have c: "\<exists>out out'.
         forward example_model \<lparr>shape = [1, 1, 2], data = [1, 5]\<rparr>
           \<lparr>shape = [1, 1, 2], data = [0, 0]\<rparr> \<lparr>shape = [1, 1, 2], data = [0, 0]\<rparr> = Inr out
       \<and> forward example_model \<lparr>shape = [1, 1, 2], data = [1, 7]\<rparr>
           \<lparr>shape = [1, 1, 2], data = [0, 0]\<rparr> \<lparr>shape = [1, 1, 2], data = [0, 0]\<rparr> = Inr out'
       \<and> get out [0, 0, 0, 0] = get out' [0, 0, 0, 0]
       \<and> get out [0, 0, 0, 1] = get out' [0, 0, 0, 1]"
    unfolding t t' by (simp add: get_def)
  show ?thesis using a b c by blast
qed

section \<open>The two class definitions compared\<close>

text \<open>
  Claim C9. Both classes are constructed with the same weights for the embedding, the
  attention stack and the output projection. On a batch of two elements with one token
  each, channel 0 of the first class's output and the real field returned by the second
  class differ (about 1 against 0 at batch element 0): in the first class the attention averages over the two batch elements, in
  the second class (created with \<^verbatim>\<open>batch_first=True\<close>) each batch element is a
  sequence of its own.
\<close>

theorem two_classes_disagree:
  "QuantumTransformer_init example_weights 2 1 2 = Inr example_model
   \<and> QuantumTransformer2_init example_weights 1 2 = Inr example_model2
   \<and> (\<exists>out re im channel0.
         forward example_model \<lparr>shape = [2, 1, 1], data = [1, 5]\<rparr>
           \<lparr>shape = [2, 1, 1], data = [0, 0]\<rparr> \<lparr>shape = [2, 1, 1], data = [0, 0]\<rparr> = Inr out
       \<and> forward2 example_model2 \<lparr>shape = [2, 1, 1], data = [1, 5]\<rparr>
           \<lparr>shape = [2, 1, 1], data = [0, 0]\<rparr> \<lparr>shape = [2, 1, 1], data = [0, 0]\<rparr>
           = Inr (re, im)
       \<and> select_last out 0 = Inr channel0
       \<and> data channel0 = [normalise (normalise 1), normalise (normalise 3)]
       \<and> data re = [normalise (normalise 0), normalise (normalise 4)]
       \<and> channel0 \<noteq> re)"
proof -
  let ?o = "\<lparr>shape = [2, 1, 1, 2],
          data = [normalise (normalise 1), - normalise (normalise 1),
                  normalise (normalise 3), - normalise (normalise 3)]\<rparr>"
  let ?c = "\<lparr>shape = [2, 1, 1], data = [normalise (normalise 1), normalise (normalise 3)]\<rparr>"
  let ?re = "\<lparr>shape = [2, 1, 1], data = [normalise (normalise 0), normalise (normalise 4)]\<rparr>"
  have s: "select_last ?o 0 = Inr ?c"
    by (simp add: select_last_def upt_rec)
  have "normalise (normalise 1) \<noteq> normalise (normalise 0)"
    by (rule normalise_twice_neq) simp
  then have d: "?c \<noteq> ?re" by simp
  have "\<exists>out re im channel0.
         forward example_model \<lparr>shape = [2, 1, 1], data = [1, 5]\<rparr>
           \<lparr>shape = [2, 1, 1], data = [0, 0]\<rparr> \<lparr>shape = [2, 1, 1], data = [0, 0]\<rparr> = Inr out
       \<and> forward2 example_model2 \<lparr>shape = [2, 1, 1], data = [1, 5]\<rparr>
           \<lparr>shape = [2, 1, 1], data = [0, 0]\<rparr> \<lparr>shape = [2, 1, 1], data = [0, 0]\<rparr>
           = Inr (re, im)
       \<and> select_last out 0 = Inr channel0
       \<and> data channel0 = [normalise (normalise 1), normalise (normalise 3)]
       \<and> data re = [normalise (normalise 0), normalise (normalise 4)]
       \<and> channel0 \<noteq> re"
    using forward_batch_1_5 forward2_batch_1_5 s d
    by (intro exI [of _ ?o] exI [of _ ?re] exI [of _ ?c] exI) simp
  then show ?thesis
    using example_model_init example_model2_init by simp
qed

section \<open>Who writes the parameters\<close>


section \<open>The training loop runs all epochs\<close>

text \<open>
  Claim C7, as stated, fails: a model whose positional table has two rows and a loader
  whose single batch has three tokens per trajectory. The first forward pass raises when
  the table slice is added, so no epoch is completed and no update is made.
\<close>

theorem train_aborts_counterexample:
  "QuantumTransformer_init example_weights 2 1 2 = Inr example_model
   \<and> train (\<lambda>m b g. ()) (\<lambda>s w g. (s, w))
       \<lparr>nb_model = example_model, nb_optimizer = (), nb_grad = None,
        nb_grad_enabled = True, nb_steps = 0\<rparr>
       (\<lambda>e. [(\<lparr>shape = [1, 1, 3, 3], data = [0, 0, 0, 0, 0, 0, 0, 0, 0]\<rparr>,
              \<lparr>shape = [1, 1, 3, 2], data = [0, 0, 0, 0, 0, 0]\<rparr>)]) 1
     = Inl BroadcastMismatch"
proof -
  let ?X = "\<lparr>shape = [1, 1, 3, 3], data = [0, 0, 0, 0, 0, 0, 0, 0, 0 :: real]\<rparr>"
  let ?z = "\<lparr>shape = [1, 1, 3], data = [0, 0, 0 :: real]\<rparr>"
  have sel: "select_last ?X 0 = Inr ?z" "select_last ?X 1 = Inr ?z" "select_last ?X 2 = Inr ?z"
    by (simp_all add: select_last_def upt_rec)
  have sh: "shape (pe_table L D) = [Suc 0, L, D]" for L D by (simp add: pe_table_def)
  have fw: "forward (example_model\<lparr>training := True\<rparr>) ?z ?z ?z = Inl BroadcastMismatch"
    by (simp add: forward_def example_model_def stack3_last_def view_def linear_apply_def
        size_at_def slice1_pe_table_eq add_tensors_def broadcast_shapes_def sh)
  have one: "[0..<(1::nat)] = [0]" by simp
  have "train (\<lambda>m b g. ()) (\<lambda>s w g. (s, w))
          \<lparr>nb_model = example_model, nb_optimizer = (), nb_grad = None,
           nb_grad_enabled = True, nb_steps = 0\<rparr>
          (\<lambda>e. [(?X, \<lparr>shape = [1, 1, 3, 2], data = [0, 0, 0, 0, 0, 0]\<rparr>)]) 1
        = Inl BroadcastMismatch"
    by (simp add: train_def train_epoch_def train_batch_def notebook_train_def zero_grad_def
        module_call_eq one sel fw del: One_nat_def)
  then show ?thesis using example_model_init by simp
qed

text \<open>
  Claim C7, amended. Let the model have the layer widths of \<^verbatim>\<open>__init__\<close> and a
  positional table of \<open>L\<close> rows, let the gradient mode be on, and let the loader yield, in
  each of the \<open>E\<close> epochs, at least one batch and only batches that fit the table. Then,
  whatever the optimizer's rule (and learning rate) and the gradients are, the training
  loop returns after exactly \<open>E\<close> epochs, with \<open>E\<close> lists of losses and \<open>E\<close> printed
  values, and:

  \<^item> the final state is the result of one parameter update per batch, \<open>one_update\<close>,
    applied along the batches of epoch 0, then those of epoch 1, and so on, every batch
    once and in the order drawn, starting from the model in training mode; so the number
    of updates is \<open>\<Sum>e<E. length (train_loader e)\<close>;

  \<^item> the loss recorded for batch \<open>k\<close> of epoch \<open>e\<close> is the per-element mean squared error
    between the batch target and the output of the model as the updates for all earlier
    batches have left it;

  \<^item> the value printed for an epoch is the mean of the losses of its batches.
\<close>

theorem train_runs_all_epochs:
  assumes "architecture (nb_model nb) L D"
    and "nb_grad_enabled nb"
    and "\<forall>e < E. train_loader e \<noteq> [] \<and> (\<forall>b \<in> set (train_loader e). batch_fits L b)"
  shows "\<exists>nb' hist printed.
           train backward step nb train_loader E = Inr (nb', hist, printed)
         \<and> length hist = E \<and> length printed = E
         \<and> nb' = foldl (one_update backward step) (if E = 0 then nb else notebook_train nb)
                    (concat (map train_loader [0..<E]))
         \<and> nb_steps nb' = nb_steps nb + (\<Sum>e < E. length (train_loader e))
         \<and> (\<forall>e < E. length (hist ! e) = length (train_loader e)
               \<and> (\<forall>k < length (train_loader e).
                     batch_mse
                       (nb_model (foldl (one_update backward step) (notebook_train nb)
                                    (concat (map train_loader [0..<e]) @ take k (train_loader e))))
                       (train_loader e ! k) (hist ! e ! k))
               \<and> printed ! e = mean_loss (hist ! e))"
proof (cases "E = 0")
  case True
  then show ?thesis by (simp add: train_def)
next
  case False
  let ?U = "one_update backward step"
  let ?nb0 = "notebook_train nb"
  have es: "[0..<E] \<noteq> []" using False by simp
  have a0: "architecture (nb_model ?nb0) L D" using assms(1) by (simp add: notebook_train_facts)
  have g0: "nb_grad_enabled ?nb0" using assms(2) by (simp add: notebook_train_facts)
  have t0: "training (nb_model ?nb0)" by (simp add: notebook_train_facts)
  have ok: "\<forall>e \<in> set [0..<E]. train_loader e \<noteq> []
              \<and> (\<forall>b \<in> set (train_loader e). batch_fits L b)"
    using assms(3) by simp
  obtain hs where r:
      "train_epochs backward step train_loader ?nb0 [] [] [0..<E]
         = Inr (foldl ?U ?nb0 (concat (map train_loader [0..<E])), [] @ hs, [] @ map mean_loss hs)"
      "length hs = length [0..<E]"
      "\<forall>i < length [0..<E]. length (hs ! i) = length (train_loader ([0..<E] ! i))
          \<and> (\<forall>k < length (train_loader ([0..<E] ! i)).
                batch_mse (nb_model (foldl ?U ?nb0 (concat (map train_loader (take i [0..<E]))
                                                     @ take k (train_loader ([0..<E] ! i)))))
                  (train_loader ([0..<E] ! i) ! k) (hs ! i ! k))"
    using train_epochs_run [OF a0 g0 t0 ok, of backward step "[]" "[]"] by blast
  let ?nb' = "foldl ?U ?nb0 (concat (map train_loader [0..<E]))"
  have run: "train backward step nb train_loader E = Inr (?nb', hs, map mean_loss hs)"
    unfolding train_def using r(1) train_epochs_mode [OF es, of backward step train_loader nb "[]" "[]"]
    by simp
  have len: "length hs = E" using r(2) by simp
  have steps: "nb_steps ?nb' = nb_steps nb + (\<Sum>e < E. length (train_loader e))"
    by (simp add: updates_facts notebook_train_facts length_concat_loader)
  have each: "length (hs ! e) = length (train_loader e)
          \<and> (\<forall>k < length (train_loader e).
                batch_mse (nb_model (foldl ?U ?nb0 (concat (map train_loader [0..<e])
                                                     @ take k (train_loader e))))
                  (train_loader e ! k) (hs ! e ! k))
          \<and> map mean_loss hs ! e = mean_loss (hs ! e)" if "e < E" for e
    using r(3) that len by simp
  show ?thesis
    using False run len steps each by simp
qed

theorem train_runs_all_epochs_witness:
  "\<exists>nb' hist printed.
      train (\<lambda>m b g. b) (\<lambda>s w g. (Suc s, w\<lparr>output_bias := map ((+) 1) (output_bias w)\<rparr>))
        \<lparr>nb_model = example_model, nb_optimizer = 0, nb_grad = None,
         nb_grad_enabled = True, nb_steps = 0\<rparr>
        (\<lambda>e. [(\<lparr>shape = [1, 1, 1, 3], data = [1, 0, 0]\<rparr>,
               \<lparr>shape = [1, 1, 1, 2], data = [0, 0]\<rparr>)]) 2 = Inr (nb', hist, printed)
    \<and> length hist = 2 \<and> length printed = 2 \<and> nb_steps nb' = 2 \<and> nb_optimizer nb' = 2
    \<and> bias (output_layer (nb_model nb')) = [2, 2]
    \<and> nb_grad nb' = Some (\<lparr>shape = [1, 1, 1, 3], data = [1, 0, 0]\<rparr>,
                          \<lparr>shape = [1, 1, 1, 2], data = [0, 0]\<rparr>)"
proof -
  let ?b = "(\<lparr>shape = [1, 1, 1, 3], data = [1, 0, 0 :: real]\<rparr>,
             \<lparr>shape = [1, 1, 1, 2], data = [0, 0 :: real]\<rparr>)"
  let ?nb = "\<lparr>nb_model = example_model, nb_optimizer = 0 :: nat,
              nb_grad = None :: (real tensor \<times> real tensor) option,
              nb_grad_enabled = True, nb_steps = 0\<rparr>"
  have arch: "architecture (nb_model ?nb) (1 * 2) 2"
    using init_architecture [OF example_model_init] by simp
  have on: "nb_grad_enabled ?nb" by simp
  have ok: "\<forall>e < 2. (\<lambda>e::nat. [?b]) e \<noteq> [] \<and> (\<forall>b \<in> set ((\<lambda>e::nat. [?b]) e). batch_fits (1 * 2) b)"
    by (simp add: batch_fits_def)
  have two: "[0..<2::nat] = [0, 1]" by (simp add: upt_rec)
  show ?thesis
    using train_runs_all_epochs [OF arch on ok, of "\<lambda>m b g. b"
        "\<lambda>s w g. (Suc s, w\<lparr>output_bias := map ((+) 1) (output_bias w)\<rparr>)"]
    by (auto simp: two one_update_def Let_def notebook_train_def set_parameters_def
        model_parameters_def example_model_def)
qed

end
